theory Spec2Isabelle
  imports Complex_Main "HOL-Library.Word"
begin

section \<open>Data model\<close>

text \<open>
  The module \<^verbatim>\<open>ws_anisotropic_distance_transform.py\<close> orchestrates numeric kernels of
  vigra and wsdt over numpy arrays. A numpy array is modelled by its shape and its
  elements in C order. \<^verbatim>\<open>float32\<close> elements are modelled as reals (rounding is not
  modelled), \<^verbatim>\<open>uint32\<close> elements as 32-bit words (arithmetic wraps, as numpy's does),
  Python numbers as \<open>real\<close> and \<open>int\<close>.
\<close>

type_synonym u32 = "32 word"

record 'a ndarray =
  shape :: "nat list"
  data :: "'a list"

definition ndim :: "'a ndarray \<Rightarrow> nat" where
  "ndim a = length (shape a)"

text \<open>Every numpy array holds as many elements as its shape says.\<close>

definition wf_ndarray :: "'a ndarray \<Rightarrow> bool" where
  "wf_ndarray a = (length (data a) = prod_list (shape a))"

text \<open>Elementwise operations keep the shape.\<close>

definition map_nd :: "('a \<Rightarrow> 'b) \<Rightarrow> 'a ndarray \<Rightarrow> 'b ndarray" where
  "map_nd f a = \<lparr>shape = shape a, data = map f (data a)\<rparr>"

text \<open>\<^verbatim>\<open>a - b\<close> and the like, on arrays of one shape.\<close>

definition map2_nd :: "('a \<Rightarrow> 'b \<Rightarrow> 'c) \<Rightarrow> 'a ndarray \<Rightarrow> 'b ndarray \<Rightarrow> 'c ndarray" where
  "map2_nd f a b =
     \<lparr>shape = shape a, data = map (\<lambda>i. f (data a ! i) (data b ! i)) [0..<length (data a)]\<rparr>"

text \<open>\<^verbatim>\<open>a[mask] = v[mask]\<close> with a boolean mask of the shape of \<open>a\<close> and \<open>v\<close>.\<close>

definition mask_assign :: "'a ndarray \<Rightarrow> bool ndarray \<Rightarrow> 'a ndarray \<Rightarrow> 'a ndarray" where
  "mask_assign a msk v =
     \<lparr>shape = shape a,
      data = map (\<lambda>i. if data msk ! i then data v ! i else data a ! i) [0..<length (data a)]\<rparr>"

text \<open>\<^verbatim>\<open>np.zeros_like(a, dtype = 'uint32')\<close>.\<close>

definition zeros_like :: "'a ndarray \<Rightarrow> u32 ndarray" where
  "zeros_like a = \<lparr>shape = shape a, data = replicate (length (data a)) 0\<rparr>"

text \<open>The number of elements of one slice \<^verbatim>\<open>a[z]\<close> along the first axis.\<close>

definition slice_size :: "'a ndarray \<Rightarrow> nat" where
  "slice_size a = prod_list (tl (shape a))"

text \<open>\<^verbatim>\<open>a[z]\<close>: the slice \<open>z\<close> along the first axis.\<close>

definition get_slice :: "'a ndarray \<Rightarrow> nat \<Rightarrow> 'a ndarray" where
  "get_slice a z =
     \<lparr>shape = tl (shape a), data = take (slice_size a) (drop (z * slice_size a) (data a))\<rparr>"

text \<open>\<^verbatim>\<open>a[z] = v\<close>: the elements of slice \<open>z\<close> are overwritten with the elements \<open>v\<close>.\<close>

definition set_slice :: "'a ndarray \<Rightarrow> nat \<Rightarrow> 'a list \<Rightarrow> 'a ndarray" where
  "set_slice a z v =
     \<lparr>shape = shape a,
      data = take (z * slice_size a) (data a) @ v @ drop (z * slice_size a + slice_size a) (data a)\<rparr>"

section \<open>The numeric kernels\<close>

text \<open>
  The kernels of vigra and wsdt are not part of the module; the model takes them as
  parameters. \<open>distanceTransform\<close> gets the array, the flag \<^verbatim>\<open>background\<close> and the
  pixel pitch; \<open>gaussianSmoothing\<close> the array and the scale, a scalar or one number per
  axis; \<open>localMaxima\<close> is called with \<^verbatim>\<open>allowPlateaus=True, allowAtBorder=True,
  marker=np.nan\<close>, so its result may hold NaN (\<open>None\<close>);
  \<open>iterative_inplace_watershed\<close> gets the height slice, the seed slice, the minimal and
  the maximal segment size and returns the new contents of the seed slice, which it
  overwrites in place, and the maximal label.
\<close>

datatype scale = Scalar real | PerAxis "real list"

record kernels =
  distanceTransform :: "u32 ndarray \<Rightarrow> bool \<Rightarrow> real list \<Rightarrow> real ndarray"
  gaussianSmoothing :: "real ndarray \<Rightarrow> scale \<Rightarrow> real ndarray"
  localMaxima :: "real ndarray \<Rightarrow> real option ndarray"
  labelMultiArrayWithBackground :: "real option ndarray \<Rightarrow> u32 ndarray"
  group_seeds_by_distance :: "real option ndarray \<Rightarrow> real ndarray \<Rightarrow> u32 ndarray"
  iterative_inplace_watershed ::
    "real ndarray \<Rightarrow> u32 ndarray \<Rightarrow> int \<Rightarrow> int option \<Rightarrow> u32 list \<times> int"

datatype error = AssertionError | ZeroDivisionError

section \<open>The module\<close>

subsection \<open>\<^verbatim>\<open>signed_anisotropic_dt\<close>\<close>

text \<open>Line 13: \<^verbatim>\<open>(pmap >= threshold).astype('uint32')\<close>.\<close>

definition binary_membranes :: "real ndarray \<Rightarrow> real \<Rightarrow> u32 ndarray" where
  "binary_membranes pmap threshold = map_nd (\<lambda>p. if threshold \<le> p then 1 else 0) pmap"

text \<open>
  Line 35: \<^verbatim>\<open>distance_to_nonmembrane[distance_to_nonmembrane>0] -= 1\<close>, on one element.
\<close>

definition shrink_positive :: "real \<Rightarrow> real" where
  "shrink_positive d = (if 0 < d then d - 1 else d)"

text \<open>
  In the second branch the source lets vigra write the second distance transform into
  the buffer of \<^verbatim>\<open>binary_membranes\<close>, viewed as \<^verbatim>\<open>float32\<close>; the model takes the
  transform of \<^verbatim>\<open>binary_membranes\<close> with \<^verbatim>\<open>background=False\<close>, as the call asks for.
\<close>

definition signed_anisotropic_dt ::
  "kernels \<Rightarrow> real ndarray \<Rightarrow> real \<Rightarrow> real \<Rightarrow> bool \<Rightarrow> real ndarray" where
  "signed_anisotropic_dt K pmap threshold anisotropy preserve_membrane_pmaps =
     (let distance_to_membrane =
            distanceTransform K (binary_membranes pmap threshold) True [anisotropy, 1, 1]
      in if preserve_membrane_pmaps then
           let membrane_mask = map_nd (\<lambda>b. b \<noteq> 0) (binary_membranes pmap threshold)
           in mask_assign distance_to_membrane membrane_mask (map_nd uminus pmap)
         else
           let distance_to_nonmembrane =
                 distanceTransform K (binary_membranes pmap threshold) False [anisotropy, 1, 1];
               distance_to_nonmembrane = map_nd shrink_positive distance_to_nonmembrane
           in map2_nd (-) distance_to_membrane distance_to_nonmembrane)"

subsection \<open>\<^verbatim>\<open>anisotropic_seeds\<close>\<close>

text \<open>The body of the loop over \<open>z\<close>.\<close>

definition seeds_step ::
  "kernels \<Rightarrow> real ndarray \<Rightarrow> real ndarray \<Rightarrow> bool \<Rightarrow> u32 ndarray \<Rightarrow> nat \<Rightarrow> u32 ndarray" where
  "seeds_step K seed_map distance_to_membrane group_seeds seeds z =
     (let seeds_z = localMaxima K (get_slice seed_map z);
          labels_z =
            (if group_seeds
             then group_seeds_by_distance K seeds_z (get_slice distance_to_membrane z)
             else labelMultiArrayWithBackground K seeds_z)
      in set_slice seeds z (data labels_z))"

text \<open>
  \<^verbatim>\<open>1. / anisotropy\<close> raises \<^verbatim>\<open>ZeroDivisionError\<close> for a zero anisotropy. The argument
  \<open>sigma_seeds\<close> is not read.
\<close>

definition anisotropic_seeds ::
  "kernels \<Rightarrow> real ndarray \<Rightarrow> real \<Rightarrow> real \<Rightarrow> bool \<Rightarrow> error + u32 ndarray" where
  "anisotropic_seeds K distance_to_membrane anisotropy sigma_seeds group_seeds =
     (let seeds = zeros_like distance_to_membrane
      in if anisotropy = 0 then Inl ZeroDivisionError
         else
           let seed_map =
                 gaussianSmoothing K distance_to_membrane (PerAxis [1 / anisotropy, 1, 1])
           in Inr (foldl (seeds_step K seed_map distance_to_membrane group_seeds) seeds
                     [0..<shape distance_to_membrane ! 0]))"

subsection \<open>\<^verbatim>\<open>ws_anisotropic_distance_transform\<close>\<close>

text \<open>Lines 102 to 110: the height map the watershed grows on.\<close>

definition height_map ::
  "kernels \<Rightarrow> real ndarray \<Rightarrow> real ndarray \<Rightarrow> bool \<Rightarrow> real \<Rightarrow> real ndarray" where
  "height_map K pmap distance_to_membrane grow_on_pmap sigma_weights =
     (let hmap = (if grow_on_pmap then pmap
                  else map_nd (\<lambda>d. d * (- 1)) distance_to_membrane)
      in if sigma_weights \<noteq> 0 then gaussianSmoothing K hmap (Scalar (1 / sigma_weights))
         else hmap)"

text \<open>
  Lines 114 to 118, the body of the loop over \<open>z\<close>: the watershed overwrites
  \<^verbatim>\<open>seeds[z]\<close>, then \<^verbatim>\<open>seeds[z] -= 1\<close> and \<^verbatim>\<open>seeds[z] += offset\<close> act on every element
  of the \<^verbatim>\<open>uint32\<close> slice, then \<^verbatim>\<open>offset += max_z\<close>. The offset is a Python integer and
  does not wrap; the elements do.
\<close>

definition stitch_step ::
  "kernels \<Rightarrow> real ndarray \<Rightarrow> int \<Rightarrow> u32 ndarray \<times> int \<Rightarrow> nat \<Rightarrow> u32 ndarray \<times> int" where
  "stitch_step K hmap min_segment_size st z =
     (let seeds = fst st;
          offset = snd st;
          ws = iterative_inplace_watershed K (get_slice hmap z) (get_slice seeds z)
                 min_segment_size None;
          max_z = snd ws;
          seeds_z = fst ws;
          seeds_z = map (\<lambda>l. l - 1) seeds_z;
          seeds_z = map (\<lambda>l. l + word_of_int offset) seeds_z
      in (set_slice seeds z seeds_z, offset + max_z))"

text \<open>Lines 112 to 120: the loop and the returned pair.\<close>

definition label_stitcher ::
  "kernels \<Rightarrow> real ndarray \<Rightarrow> u32 ndarray \<Rightarrow> int \<Rightarrow> nat \<Rightarrow> u32 ndarray \<times> int" where
  "label_stitcher K hmap seeds min_segment_size n =
     foldl (stitch_step K hmap min_segment_size) (seeds, 0) [0..<n]"

definition ws_anisotropic_distance_transform ::
  "kernels \<Rightarrow> real ndarray \<Rightarrow> real \<Rightarrow> real \<Rightarrow> real \<Rightarrow> real \<Rightarrow> int \<Rightarrow> bool \<Rightarrow> bool \<Rightarrow> bool
     \<Rightarrow> error + (u32 ndarray \<times> int)" where
  "ws_anisotropic_distance_transform K pmap threshold anisotropy sigma_seeds sigma_weights
       min_segment_size preserve_membrane_pmaps grow_on_pmap group_seeds =
     (if ndim pmap \<noteq> 3 then Inl AssertionError
      else if \<not> (shape pmap ! 0 < shape pmap ! 1 \<and> shape pmap ! 0 < shape pmap ! 2)
      then Inl AssertionError
      else
        let distance_to_membrane =
              signed_anisotropic_dt K pmap threshold anisotropy preserve_membrane_pmaps
        in case anisotropic_seeds K distance_to_membrane anisotropy sigma_seeds group_seeds of
             Inl e \<Rightarrow> Inl e
           | Inr seeds \<Rightarrow>
               Inr (label_stitcher K
                      (height_map K pmap distance_to_membrane grow_on_pmap sigma_weights)
                      seeds min_segment_size (shape pmap ! 0)))"

subsection \<open>The entry point over a store\<close>

text \<open>
  The entry point binds \<^verbatim>\<open>hmap\<close> to an array that already has a name (\<^verbatim>\<open>hmap = pmap\<close>,
  \<^verbatim>\<open>hmap = distance_to_membrane\<close>) and writes through it (\<^verbatim>\<open>hmap[:] *= -1\<close>). To say what
  a run leaves behind in the caller's array, the same function is given once more over a
  store of the arrays it can reach: a name is a reference, an assignment through a name
  writes the buffer it refers to. \<^verbatim>\<open>signed_anisotropic_dt\<close> and \<^verbatim>\<open>anisotropic_seeds\<close> only
  read their arguments and write arrays they created themselves, and the smoothing
  returns a new array; the watershed writes the seeds and reads the height slice.
\<close>

datatype ref = RefPmap | RefDistance | RefSmoothed

record store =
  pmap_buf :: "real ndarray"
  distance_buf :: "real ndarray"
  smoothed_buf :: "real ndarray"
  seeds_buf :: "u32 ndarray"

fun deref :: "store \<Rightarrow> ref \<Rightarrow> real ndarray" where
  "deref st RefPmap = pmap_buf st"
| "deref st RefDistance = distance_buf st"
| "deref st RefSmoothed = smoothed_buf st"

fun assign :: "store \<Rightarrow> ref \<Rightarrow> real ndarray \<Rightarrow> store" where
  "assign st RefPmap v = st\<lparr>pmap_buf := v\<rparr>"
| "assign st RefDistance v = st\<lparr>distance_buf := v\<rparr>"
| "assign st RefSmoothed v = st\<lparr>smoothed_buf := v\<rparr>"

definition store_run ::
  "kernels \<Rightarrow> store \<Rightarrow> real \<Rightarrow> real \<Rightarrow> real \<Rightarrow> real \<Rightarrow> int \<Rightarrow> bool \<Rightarrow> bool \<Rightarrow> bool
     \<Rightarrow> (error + (u32 ndarray \<times> int)) \<times> store" where
  "store_run K st threshold anisotropy sigma_seeds sigma_weights min_segment_size
       preserve_membrane_pmaps grow_on_pmap group_seeds =
     (if ndim (pmap_buf st) \<noteq> 3 then (Inl AssertionError, st)
      else if \<not> (shape (pmap_buf st) ! 0 < shape (pmap_buf st) ! 1 \<and>
                  shape (pmap_buf st) ! 0 < shape (pmap_buf st) ! 2)
      then (Inl AssertionError, st)
      else
        let st = st\<lparr>distance_buf :=
                    signed_anisotropic_dt K (pmap_buf st) threshold anisotropy
                      preserve_membrane_pmaps\<rparr>
        in case anisotropic_seeds K (distance_buf st) anisotropy sigma_seeds group_seeds of
             Inl e \<Rightarrow> (Inl e, st)
           | Inr seeds \<Rightarrow>
               let st = st\<lparr>seeds_buf := seeds\<rparr>;
                   hmap = (if grow_on_pmap then RefPmap else RefDistance);
                   st = (if grow_on_pmap then st
                         else assign st hmap (map_nd (\<lambda>d. d * (- 1)) (deref st hmap)));
                   st' = (if sigma_weights \<noteq> 0
                          then assign st RefSmoothed
                                 (gaussianSmoothing K (deref st hmap) (Scalar (1 / sigma_weights)))
                          else st);
                   hmap' = (if sigma_weights \<noteq> 0 then RefSmoothed else hmap);
                   res = label_stitcher K (deref st' hmap') (seeds_buf st') min_segment_size
                           (shape (pmap_buf st') ! 0)
               in (Inr res, st'\<lparr>seeds_buf := fst res\<rparr>))"

section \<open>Notions used to state the properties\<close>

text \<open>
  The contents of the seed slice \<open>z\<close> after the watershed has overwritten it, the maximal
  label the watershed returned for it, and the value of \<^verbatim>\<open>offset\<close> when the loop of lines
  113 to 118 reaches slice \<open>z\<close>: the sum of the maximal labels of the slices before it.
\<close>

definition grown :: "kernels \<Rightarrow> real ndarray \<Rightarrow> u32 ndarray \<Rightarrow> int \<Rightarrow> nat \<Rightarrow> u32 list" where
  "grown K hmap seeds min_segment_size z =
     fst (iterative_inplace_watershed K (get_slice hmap z) (get_slice seeds z)
            min_segment_size None)"

definition max_label :: "kernels \<Rightarrow> real ndarray \<Rightarrow> u32 ndarray \<Rightarrow> int \<Rightarrow> nat \<Rightarrow> int" where
  "max_label K hmap seeds min_segment_size z =
     snd (iterative_inplace_watershed K (get_slice hmap z) (get_slice seeds z)
            min_segment_size None)"

definition running_offset :: "kernels \<Rightarrow> real ndarray \<Rightarrow> u32 ndarray \<Rightarrow> int \<Rightarrow> nat \<Rightarrow> int" where
  "running_offset K hmap seeds min_segment_size z =
     sum_list (map (max_label K hmap seeds min_segment_size) [0..<z])"

definition stitched_slice ::
  "kernels \<Rightarrow> real ndarray \<Rightarrow> u32 ndarray \<Rightarrow> int \<Rightarrow> nat \<Rightarrow> u32 list" where
  "stitched_slice K hmap seeds min_segment_size z =
     map (\<lambda>l. l - 1 + word_of_int (running_offset K hmap seeds min_segment_size z))
       (grown K hmap seeds min_segment_size z)"

text \<open>The labels written to the seed slice \<open>z\<close> by the loop of \<^verbatim>\<open>anisotropic_seeds\<close>.\<close>

definition seed_labels ::
  "kernels \<Rightarrow> real ndarray \<Rightarrow> real ndarray \<Rightarrow> bool \<Rightarrow> nat \<Rightarrow> u32 list" where
  "seed_labels K seed_map distance_to_membrane group_seeds z =
     data (if group_seeds
           then group_seeds_by_distance K (localMaxima K (get_slice seed_map z))
                  (get_slice distance_to_membrane z)
           else labelMultiArrayWithBackground K (localMaxima K (get_slice seed_map z)))"

text \<open>
  The shape contract of the kernels: each one returns an array of the shape of its
  first argument, and the watershed, which works in place, keeps the number of elements
  of the seed slice. Where a kernel broke it, numpy would raise; the model is meant
  for kernels that keep it.
\<close>

definition ws_in_place :: "kernels \<Rightarrow> bool" where
  "ws_in_place K =
     (\<forall>h s m mx. length (fst (iterative_inplace_watershed K h s m mx)) = length (data s))"

definition kernels_ok :: "kernels \<Rightarrow> bool" where
  "kernels_ok K =
     ((\<forall>a b p. shape (distanceTransform K a b p) = shape a \<and>
               length (data (distanceTransform K a b p)) = length (data a)) \<and>
      (\<forall>a s. shape (gaussianSmoothing K a s) = shape a \<and>
             length (data (gaussianSmoothing K a s)) = length (data a)) \<and>
      (\<forall>a. length (data (localMaxima K a)) = length (data a)) \<and>
      (\<forall>m. length (data (labelMultiArrayWithBackground K m)) = length (data m)) \<and>
      (\<forall>m d. length (data (group_seeds_by_distance K m d)) = length (data m)) \<and>
      ws_in_place K)"

text \<open>
  Every label of every grown slice lies between 1 and the maximal label the watershed
  returned for the slice.
\<close>

definition labels_within :: "kernels \<Rightarrow> real ndarray \<Rightarrow> u32 ndarray \<Rightarrow> int \<Rightarrow> nat \<Rightarrow> bool" where
  "labels_within K hmap seeds min_segment_size nz =
     (\<forall>z<nz. \<forall>l \<in> set (grown K hmap seeds min_segment_size z).
        1 \<le> uint l \<and> uint l \<le> max_label K hmap seeds min_segment_size z)"

section \<open>A Euclidean distance transform\<close>

text \<open>
  Modelled from the spec: the collaborator \<^verbatim>\<open>AnisotropicDistanceTransform\<close> of section 6
  (vigra's \<^verbatim>\<open>distanceTransform\<close> is a library outside the repository). With
  \<^verbatim>\<open>background=True\<close> a voxel of value 0 gets the Euclidean distance, under the pixel
  pitch, to the nearest nonzero voxel, and a nonzero voxel gets 0; with
  \<^verbatim>\<open>background=False\<close> the two classes change roles. Where the other class is empty
  the distance saturates at the diagonal of the array.
\<close>

fun unravel_index :: "nat list \<Rightarrow> nat \<Rightarrow> nat list" where
  "unravel_index [] i = []"
| "unravel_index (d # ds) i = (i div prod_list ds) # unravel_index ds (i mod prod_list ds)"

definition sq_dist :: "real list \<Rightarrow> nat list \<Rightarrow> nat list \<Rightarrow> real" where
  "sq_dist pitch p q =
     sum_list (map (\<lambda>(w, a, b). (w * (real a - real b))\<^sup>2) (zip pitch (zip p q)))"

definition saturation :: "real list \<Rightarrow> nat list \<Rightarrow> real" where
  "saturation pitch sh = sqrt (sum_list (map (\<lambda>(w, d). (w * real d)\<^sup>2) (zip pitch sh)))"

definition euclidean_dt :: "u32 ndarray \<Rightarrow> bool \<Rightarrow> real list \<Rightarrow> real ndarray" where
  "euclidean_dt a background pitch =
     \<lparr>shape = shape a,
      data = map (\<lambda>i.
          if (data a ! i \<noteq> 0) = background then 0
          else
            let others = filter (\<lambda>j. (data a ! j \<noteq> 0) = background) [0..<length (data a)]
            in if others = [] then saturation pitch (shape a)
               else sqrt (min_list (map (\<lambda>j. sq_dist pitch (unravel_index (shape a) i)
                                                (unravel_index (shape a) j)) others)))
        [0..<length (data a)]\<rparr>"

section \<open>Toy kernels and concrete volumes\<close>

text \<open>
  An instance of the kernels for concrete runs: the Euclidean distance transform, no
  smoothing, every voxel of positive height a maximum, every maximum a seed of its own
  (numbered in scan order), and a watershed that grows nothing and returns the largest
  label of the slice. They keep the shape contract; they are not vigra's kernels.
\<close>

fun number_maxima :: "nat \<Rightarrow> real option list \<Rightarrow> u32 list" where
  "number_maxima k [] = []"
| "number_maxima k (None # xs) = word_of_nat (Suc k) # number_maxima (Suc k) xs"
| "number_maxima k (Some x # xs) = 0 # number_maxima k xs"

definition toy_kernels :: kernels where
  "toy_kernels =
     \<lparr>distanceTransform = euclidean_dt,
      gaussianSmoothing = (\<lambda>a s. a),
      localMaxima = map_nd (\<lambda>x. if 0 < x then None else Some 0),
      labelMultiArrayWithBackground =
        (\<lambda>m. \<lparr>shape = shape m, data = number_maxima 0 (data m)\<rparr>),
      group_seeds_by_distance =
        (\<lambda>m d. \<lparr>shape = shape m, data = number_maxima 0 (data m)\<rparr>),
      iterative_inplace_watershed =
        (\<lambda>h s m mx. (data s, foldl max 0 (map uint (data s))))\<rparr>"

definition zeros_real :: "'a ndarray \<Rightarrow> real ndarray" where
  "zeros_real a = \<lparr>shape = shape a, data = replicate (length (data a)) 0\<rparr>"

text \<open>Two slices of 3 by 3 voxels: the first all membrane, the second free of it.\<close>

definition toy_pmap :: "real ndarray" where
  "toy_pmap = \<lparr>shape = [2, 3, 3],
     data = [1, 1, 1, 1, 1, 1, 1, 1, 1,  0, 0, 0, 0, 0, 0, 0, 0, 0]\<rparr>"

definition toy_seeds :: "u32 ndarray" where
  "toy_seeds = \<lparr>shape = [2, 3, 3],
     data = [0, 0, 0, 0, 0, 0, 0, 0, 0,  1, 2, 3, 4, 5, 6, 7, 8, 9]\<rparr>"

definition toy_labels :: "u32 ndarray" where
  "toy_labels = \<lparr>shape = [2, 3, 3],
     data = [4294967295, 4294967295, 4294967295, 4294967295, 4294967295, 4294967295,
             4294967295, 4294967295, 4294967295,  0, 1, 2, 3, 4, 5, 6, 7, 8]\<rparr>"

text \<open>
  Two slices of 3 by 3 voxels: the first free of membrane, the second with one membrane
  voxel, which gets no seed and which the toy watershed leaves at label 0.
\<close>

definition mixed_pmap :: "real ndarray" where
  "mixed_pmap = \<lparr>shape = [2, 3, 3],
     data = [0, 0, 0, 0, 0, 0, 0, 0, 0,  1, 0, 0, 0, 0, 0, 0, 0, 0]\<rparr>"

definition mixed_seeds :: "u32 ndarray" where
  "mixed_seeds = \<lparr>shape = [2, 3, 3],
     data = [1, 2, 3, 4, 5, 6, 7, 8, 9,  0, 1, 2, 3, 4, 5, 6, 7, 8]\<rparr>"

definition mixed_labels :: "u32 ndarray" where
  "mixed_labels = \<lparr>shape = [2, 3, 3],
     data = [0, 1, 2, 3, 4, 5, 6, 7, 8,  8, 9, 10, 11, 12, 13, 14, 15, 16]\<rparr>"

text \<open>Two slices of 3 by 3 voxels without any membrane.\<close>

definition clear_pmap :: "real ndarray" where
  "clear_pmap = \<lparr>shape = [2, 3, 3],
     data = [0, 0, 0, 0, 0, 0, 0, 0, 0,  0, 0, 0, 0, 0, 0, 0, 0, 0]\<rparr>"

definition clear_seeds :: "u32 ndarray" where
  "clear_seeds = \<lparr>shape = [2, 3, 3],
     data = [1, 2, 3, 4, 5, 6, 7, 8, 9,  1, 2, 3, 4, 5, 6, 7, 8, 9]\<rparr>"

definition clear_labels :: "u32 ndarray" where
  "clear_labels = \<lparr>shape = [2, 3, 3],
     data = [0, 1, 2, 3, 4, 5, 6, 7, 8,  9, 10, 11, 12, 13, 14, 15, 16, 17]\<rparr>"

text \<open>A two-dimensional array, and a cube, whose first extent is not the smallest.\<close>

definition flat_pmap :: "real ndarray" where
  "flat_pmap = \<lparr>shape = [2, 2], data = [0, 0, 0, 0]\<rparr>"

definition cube_pmap :: "real ndarray" where
  "cube_pmap = \<lparr>shape = [2, 2, 2], data = [0, 0, 0, 0, 0, 0, 0, 0]\<rparr>"

text \<open>
  Three slices of \<open>4 * 2 ^ 29 = 2 ^ 31\<close> voxels each, without any membrane. With the toy
  kernels every voxel is a seed, so each slice carries the labels 1 to \<open>2 ^ 31\<close>.
\<close>

definition big_extent :: nat where
  "big_extent = 2 ^ 29"

definition big_pmap :: "real ndarray" where
  "big_pmap = \<lparr>shape = [3, 4, big_extent], data = replicate (3 * (4 * big_extent)) 0\<rparr>"

definition ramp :: "nat \<Rightarrow> u32 list" where
  "ramp n = map word_of_nat [1..<Suc n]"

text \<open>The seeds and the result of the run on this volume, and its distance field.\<close>

definition big_seeds :: "u32 ndarray" where
  "big_seeds = \<lparr>shape = [3, 4, big_extent],
     data = ramp (4 * big_extent) @ ramp (4 * big_extent) @ ramp (4 * big_extent)\<rparr>"

definition big_labels :: "u32 ndarray" where
  "big_labels = \<lparr>shape = [3, 4, big_extent],
     data = map (\<lambda>l. l - 1) (ramp (4 * big_extent)) @
            map (\<lambda>l. l - 1 + 2147483648) (ramp (4 * big_extent)) @
            map (\<lambda>l. l - 1) (ramp (4 * big_extent))\<rparr>"

definition big_sat :: real where
  "big_sat = saturation [1, 1, 1] [3, 4, big_extent]"

definition big_dtm :: "real ndarray" where
  "big_dtm = \<lparr>shape = [3, 4, big_extent], data = replicate (3 * (4 * big_extent)) big_sat\<rparr>"

text \<open>A store whose caller's array is the small volume with a membrane slice.\<close>

definition toy_store :: store where
  "toy_store = \<lparr>pmap_buf = toy_pmap, distance_buf = zeros_real toy_pmap,
     smoothed_buf = zeros_real toy_pmap, seeds_buf = zeros_like toy_pmap\<rparr>"

section \<open>Slices\<close>


lemma setk_before: "k' + n \<le> k \<Longrightarrow> k \<le> length d \<Longrightarrow> take n (drop k' (take k d @ R)) = take n (drop k' d)"
  by (simp add: take_drop min_def)

lemma setk_after: "length v = n \<Longrightarrow> k + n \<le> k' \<Longrightarrow> k + n \<le> length d \<Longrightarrow> take n' (drop k' (take k d @ v @ drop (k + n) d)) = take n' (drop k' d)"
  by simp



lemma slice_bound: "z < nz \<Longrightarrow> z * n + n \<le> nz * (n::nat)"
proof -
  assume "z < nz"
  then have "Suc z \<le> nz" by simp
  then have "Suc z * n \<le> nz * n" by (rule mult_le_mono1)
  then show ?thesis by (simp add: add.commute)
qed

lemma data_get_slice: "data (get_slice a z) = take (slice_size a) (drop (z * slice_size a) (data a))"
  by (simp add: get_slice_def)

lemma data_set_slice:
  "data (set_slice a z v) =
     take (z * slice_size a) (data a) @ v @ drop (z * slice_size a + slice_size a) (data a)"
  by (simp add: set_slice_def)

lemma shape_set_slice [simp]: "shape (set_slice a z v) = shape a"
  by (simp add: set_slice_def)

lemma slice_size_set_slice [simp]: "slice_size (set_slice a z v) = slice_size a"
  by (simp add: slice_size_def)

lemma length_set_slice:
  "length v = slice_size a \<Longrightarrow> z * slice_size a + slice_size a \<le> length (data a) \<Longrightarrow>
   length (data (set_slice a z v)) = length (data a)"
  by (simp add: data_set_slice)

lemma get_set_slice_same:
  "length v = slice_size a \<Longrightarrow> z * slice_size a + slice_size a \<le> length (data a) \<Longrightarrow>
   data (get_slice (set_slice a z v) z) = v"
  by (simp add: data_get_slice data_set_slice)

lemma get_set_slice_other:
  assumes "length v = slice_size a" "z * slice_size a + slice_size a \<le> length (data a)" "z' \<noteq> z"
  shows "data (get_slice (set_slice a z v) z') = data (get_slice a z')"
proof (cases "z' < z")
  case True
  then have "z' * slice_size a + slice_size a \<le> z * slice_size a"
    using slice_bound [of z' z "slice_size a"] by simp
  moreover have "z * slice_size a \<le> length (data a)" using assms(2) by simp
  ultimately show ?thesis
    using setk_before [of "z' * slice_size a" "slice_size a" "z * slice_size a" "data a"]
    by (simp add: data_get_slice data_set_slice)
next
  case False
  with assms(3) have "z < z'" by simp
  then have "z * slice_size a + slice_size a \<le> z' * slice_size a"
    using slice_bound [of z z' "slice_size a"] by simp
  then show ?thesis
    using assms(1,2) setk_after [of v "slice_size a" "z * slice_size a" "z' * slice_size a" "data a" "slice_size a"]
    by (simp add: data_get_slice data_set_slice)
qed

lemma length_get_slice:
  "z * slice_size a + slice_size a \<le> length (data a) \<Longrightarrow> length (data (get_slice a z)) = slice_size a"
  by (simp add: data_get_slice)

lemma shape_get_slice [simp]: "shape (get_slice a z) = tl (shape a)"
  by (simp add: get_slice_def)

lemma get_slice_cong:
  "shape a = shape b \<Longrightarrow> data (get_slice a z) = data (get_slice b z) \<Longrightarrow> get_slice a z = get_slice b z"
  by (simp add: get_slice_def slice_size_def)


section \<open>The two loops\<close>


lemma running_offset_Suc:
  "running_offset K hmap seeds mss (Suc k) =
   running_offset K hmap seeds mss k + max_label K hmap seeds mss k"
  by (simp add: running_offset_def)

lemma stitch_step_eq:
  assumes "get_slice s z = get_slice seeds z"
  shows "stitch_step K hmap mss (s, running_offset K hmap seeds mss z) z =
         (set_slice s z (stitched_slice K hmap seeds mss z), running_offset K hmap seeds mss (Suc z))"
  using assms
  by (simp add: stitch_step_def Let_def stitched_slice_def grown_def max_label_def
      running_offset_Suc comp_def)

lemma stitch_invariant:
  assumes inpl: "ws_in_place K"
      and len: "length (data seeds) = nz * slice_size seeds"
  shows "k \<le> nz \<Longrightarrow>
         shape (fst (label_stitcher K hmap seeds mss k)) = shape seeds \<and>
         length (data (fst (label_stitcher K hmap seeds mss k))) = length (data seeds) \<and>
         snd (label_stitcher K hmap seeds mss k) = running_offset K hmap seeds mss k \<and>
         (\<forall>z<k. data (get_slice (fst (label_stitcher K hmap seeds mss k)) z) =
                 stitched_slice K hmap seeds mss z) \<and>
         (\<forall>z. k \<le> z \<longrightarrow> z < nz \<longrightarrow>
              data (get_slice (fst (label_stitcher K hmap seeds mss k)) z) = data (get_slice seeds z))"
proof (induction k)
  case 0
  show ?case by (simp add: label_stitcher_def running_offset_def)
next
  case (Suc k)
  define s where "s = fst (label_stitcher K hmap seeds mss k)"
  have k: "k < nz" using Suc.prems by simp
  have ih: "shape s = shape seeds" "length (data s) = length (data seeds)"
    "snd (label_stitcher K hmap seeds mss k) = running_offset K hmap seeds mss k"
    "\<And>z. z < k \<Longrightarrow> data (get_slice s z) = stitched_slice K hmap seeds mss z"
    "\<And>z. k \<le> z \<Longrightarrow> z < nz \<Longrightarrow> data (get_slice s z) = data (get_slice seeds z)"
    using Suc.IH k unfolding s_def by auto
  have ss: "slice_size s = slice_size seeds" using ih(1) by (simp add: slice_size_def)
  have gk: "get_slice s k = get_slice seeds k"
  proof (rule get_slice_cong)
    show "shape s = shape seeds" by (rule ih(1))
    show "data (get_slice s k) = data (get_slice seeds k)" using k by (intro ih(5)) simp_all
  qed
  have bound: "k * slice_size s + slice_size s \<le> length (data s)"
    using slice_bound [OF k, of "slice_size seeds"] ih(2) len ss by simp
  have lg: "length (data (get_slice seeds k)) = slice_size seeds"
    using slice_bound [OF k, of "slice_size seeds"] len by (simp add: length_get_slice)
  have lv: "length (stitched_slice K hmap seeds mss k) = slice_size s"
    using inpl lg ss by (simp add: stitched_slice_def grown_def ws_in_place_def)
  have st: "label_stitcher K hmap seeds mss k = (s, running_offset K hmap seeds mss k)"
    using ih(3) by (simp add: s_def prod_eq_iff)
  have step: "label_stitcher K hmap seeds mss (Suc k) =
      (set_slice s k (stitched_slice K hmap seeds mss k), running_offset K hmap seeds mss (Suc k))"
    using st stitch_step_eq [OF gk] by (simp add: label_stitcher_def)
  have a: "shape (fst (label_stitcher K hmap seeds mss (Suc k))) = shape seeds"
    by (simp add: step ih(1))
  have b: "length (data (fst (label_stitcher K hmap seeds mss (Suc k)))) = length (data seeds)"
    by (simp add: step length_set_slice [OF lv bound] ih(2))
  have c: "snd (label_stitcher K hmap seeds mss (Suc k)) = running_offset K hmap seeds mss (Suc k)"
    by (simp add: step)
  have d: "data (get_slice (fst (label_stitcher K hmap seeds mss (Suc k))) z) =
           stitched_slice K hmap seeds mss z" if "z < Suc k" for z
  proof (cases "z = k")
    case True
    then show ?thesis by (simp add: step get_set_slice_same [OF lv bound])
  next
    case False
    with that have "z < k" by simp
    then show ?thesis
      using False by (simp add: step get_set_slice_other [OF lv bound] ih(4))
  qed
  have e: "data (get_slice (fst (label_stitcher K hmap seeds mss (Suc k))) z) =
           data (get_slice seeds z)" if "Suc k \<le> z" "z < nz" for z
  proof -
    have "z \<noteq> k" "k \<le> z" using that by simp_all
    then show ?thesis
      using that by (simp add: step get_set_slice_other [OF lv bound] ih(5))
  qed
  show ?case using a b c d e by blast
qed



lemma seeds_step_eq:
  "seeds_step K seed_map dtm g s z = set_slice s z (seed_labels K seed_map dtm g z)"
  by (simp add: seeds_step_def seed_labels_def Let_def)

lemma fold_set_slice:
  assumes len: "length (data init) = nz * slice_size init"
      and f: "\<And>z. z < nz \<Longrightarrow> length (f z) = slice_size init"
  shows "k \<le> nz \<Longrightarrow>
         shape (foldl (\<lambda>s z. set_slice s z (f z)) init [0..<k]) = shape init \<and>
         length (data (foldl (\<lambda>s z. set_slice s z (f z)) init [0..<k])) = length (data init) \<and>
         (\<forall>z<k. data (get_slice (foldl (\<lambda>s z. set_slice s z (f z)) init [0..<k]) z) = f z) \<and>
         (\<forall>z. k \<le> z \<longrightarrow> z < nz \<longrightarrow>
              data (get_slice (foldl (\<lambda>s z. set_slice s z (f z)) init [0..<k]) z) =
              data (get_slice init z))"
proof (induction k)
  case 0
  show ?case by simp
next
  case (Suc k)
  define s where "s = foldl (\<lambda>s z. set_slice s z (f z)) init [0..<k]"
  have k: "k < nz" using Suc.prems by simp
  have ih: "shape s = shape init" "length (data s) = length (data init)"
    "\<And>z. z < k \<Longrightarrow> data (get_slice s z) = f z"
    "\<And>z. k \<le> z \<Longrightarrow> z < nz \<Longrightarrow> data (get_slice s z) = data (get_slice init z)"
    using Suc.IH k unfolding s_def by auto
  have ss: "slice_size s = slice_size init" using ih(1) by (simp add: slice_size_def)
  have bound: "k * slice_size s + slice_size s \<le> length (data s)"
    using slice_bound [OF k, of "slice_size init"] ih(2) len ss by simp
  have lv: "length (f k) = slice_size s" using f [OF k] ss by simp
  have step: "foldl (\<lambda>s z. set_slice s z (f z)) init [0..<Suc k] = set_slice s k (f k)"
    by (simp add: s_def)
  have a: "shape (set_slice s k (f k)) = shape init" by (simp add: ih(1))
  have b: "length (data (set_slice s k (f k))) = length (data init)"
    by (simp add: length_set_slice [OF lv bound] ih(2))
  have d: "data (get_slice (set_slice s k (f k)) z) = f z" if "z < Suc k" for z
  proof (cases "z = k")
    case True
    then show ?thesis by (simp add: get_set_slice_same [OF lv bound])
  next
    case False
    with that have "z < k" by simp
    then show ?thesis
      using False by (simp add: get_set_slice_other [OF lv bound] ih(3))
  qed
  have e: "data (get_slice (set_slice s k (f k)) z) = data (get_slice init z)"
    if "Suc k \<le> z" "z < nz" for z
  proof -
    have "z \<noteq> k" "k \<le> z" using that by simp_all
    then show ?thesis
      using that by (simp add: get_set_slice_other [OF lv bound] ih(4))
  qed
  show ?case unfolding step using a b d e by blast
qed

lemma shape_signed_dt:
  assumes "kernels_ok K"
  shows "shape (signed_anisotropic_dt K pmap th a pr) = shape pmap \<and>
         length (data (signed_anisotropic_dt K pmap th a pr)) = length (data pmap)"
  using assms
  by (simp add: signed_anisotropic_dt_def binary_membranes_def kernels_ok_def Let_def map_nd_def
      mask_assign_def map2_nd_def)

lemma slice_size_cong: "shape a = shape b \<Longrightarrow> slice_size a = slice_size b"
  by (simp add: slice_size_def)

lemma wf_3d:
  assumes "wf_ndarray a" "ndim a = 3"
  shows "length (data a) = (shape a ! 0) * slice_size a"
proof -
  obtain x y z where s: "shape a = [x, y, z]"
    using assms(2) unfolding ndim_def
    by (metis (no_types, opaque_lifting) length_0_conv length_Suc_conv numeral_3_eq_3)
  show ?thesis using assms(1) by (simp add: wf_ndarray_def slice_size_def s)
qed

lemma anisotropic_seeds_slices:
  assumes ok: "kernels_ok K"
      and len: "length (data dtm) = (shape dtm ! 0) * slice_size dtm"
      and run: "anisotropic_seeds K dtm a ss g = Inr seeds"
  shows "shape seeds = shape dtm \<and> length (data seeds) = length (data dtm) \<and>
         (\<forall>z < shape dtm ! 0.
            data (get_slice seeds z) =
            seed_labels K (gaussianSmoothing K dtm (PerAxis [1 / a, 1, 1])) dtm g z)"
proof -
  define seed_map where "seed_map = gaussianSmoothing K dtm (PerAxis [1 / a, 1, 1])"
  define nz where "nz = shape dtm ! 0"
  have a0: "a \<noteq> 0" using run by (auto simp: anisotropic_seeds_def Let_def split: if_splits)
  have sm: "shape seed_map = shape dtm" "length (data seed_map) = length (data dtm)"
    using ok by (simp_all add: seed_map_def kernels_ok_def)
  have z0: "shape (zeros_like dtm) = shape dtm" "length (data (zeros_like dtm)) = length (data dtm)"
    by (simp_all add: zeros_like_def)
  have ssz: "slice_size (zeros_like dtm) = slice_size dtm" "slice_size seed_map = slice_size dtm"
    using z0 sm by (simp_all add: slice_size_def)
  have len0: "length (data (zeros_like dtm)) = nz * slice_size (zeros_like dtm)"
    using len z0 ssz by (simp add: nz_def)
  have fl: "length (seed_labels K seed_map dtm g z) = slice_size (zeros_like dtm)" if "z < nz" for z
  proof -
    have "z * slice_size seed_map + slice_size seed_map \<le> length (data seed_map)"
      using slice_bound [OF that, of "slice_size dtm"] sm ssz len by (simp add: nz_def)
    then have "length (data (get_slice seed_map z)) = slice_size dtm"
      using ssz by (simp add: length_get_slice)
    then show ?thesis using ok ssz by (simp add: seed_labels_def kernels_ok_def)
  qed
  have eq: "seeds = foldl (\<lambda>s z. set_slice s z (seed_labels K seed_map dtm g z)) (zeros_like dtm) [0..<nz]"
  proof -
    have "seeds_step K seed_map dtm g = (\<lambda>s z. set_slice s z (seed_labels K seed_map dtm g z))"
      by (intro ext) (rule seeds_step_eq)
    then show ?thesis
      using run a0 by (simp add: anisotropic_seeds_def Let_def seed_map_def nz_def)
  qed
  show ?thesis
    using fold_set_slice [where f = "seed_labels K seed_map dtm g" and init = "zeros_like dtm"
        and nz = nz and k = nz, OF len0 fl] z0
    unfolding eq [symmetric] seed_map_def [symmetric] nz_def [symmetric] by simp
qed



lemma entry_Inr:
  assumes "ws_anisotropic_distance_transform K pmap th a ss sw mss pr gr gs = Inr (labels, n)"
      and "dtm = signed_anisotropic_dt K pmap th a pr"
      and "hmap = height_map K pmap dtm gr sw"
  shows "ndim pmap = 3 \<and> shape pmap ! 0 < shape pmap ! 1 \<and> shape pmap ! 0 < shape pmap ! 2 \<and>
         (\<exists>seeds. anisotropic_seeds K dtm a ss gs = Inr seeds \<and>
                  label_stitcher K hmap seeds mss (shape pmap ! 0) = (labels, n))"
  using assms
  by (auto simp: ws_anisotropic_distance_transform_def Let_def split: if_splits sum.splits)

lemma pipeline_stitched:
  assumes ok: "kernels_ok K" and wf: "wf_ndarray pmap"
      and run: "ws_anisotropic_distance_transform K pmap th a ss sw mss pr gr gs = Inr (labels, n)"
      and dtm: "dtm = signed_anisotropic_dt K pmap th a pr"
      and seeds: "anisotropic_seeds K dtm a ss gs = Inr seeds"
      and hmap: "hmap = height_map K pmap dtm gr sw"
  shows "shape labels = shape pmap \<and> length (data labels) = length (data pmap) \<and>
         shape seeds = shape pmap \<and> length (data seeds) = shape pmap ! 0 * slice_size seeds \<and>
         n = running_offset K hmap seeds mss (shape pmap ! 0) \<and>
         (\<forall>z < shape pmap ! 0. data (get_slice labels z) = stitched_slice K hmap seeds mss z)"
proof -
  from entry_Inr [OF run dtm hmap] seeds
  have nd: "ndim pmap = 3"
    and st: "label_stitcher K hmap seeds mss (shape pmap ! 0) = (labels, n)" by auto
  have sd: "shape dtm = shape pmap" "length (data dtm) = length (data pmap)"
    using shape_signed_dt [OF ok] dtm by simp_all
  have lend: "length (data dtm) = (shape dtm ! 0) * slice_size dtm"
    using wf_3d [OF wf nd] sd slice_size_cong [OF sd(1)] by simp
  have s: "shape seeds = shape dtm" "length (data seeds) = length (data dtm)"
    using anisotropic_seeds_slices [OF ok lend seeds] by simp_all
  have lens: "length (data seeds) = (shape pmap ! 0) * slice_size seeds"
    using lend s sd slice_size_cong [OF s(1)] by simp
  have inpl: "ws_in_place K" using ok by (simp add: kernels_ok_def)
  show ?thesis
    using stitch_invariant [OF inpl lens, of "shape pmap ! 0" hmap mss] st s sd lens by simp
qed

lemma uint_no_wrap:
  fixes l :: u32
  assumes "1 \<le> uint l" "0 \<le> off" "uint l - 1 + off < 2 ^ 32"
  shows "uint (l - 1 + word_of_int off) = uint l - 1 + off"
proof -
  have "l - 1 + word_of_int off = word_of_int (uint l - 1 + off)" by simp
  then have "uint (l - 1 + word_of_int off) = take_bit 32 (uint l - 1 + off)"
    by (simp only: uint_word_of_int_eq) simp
  also have "\<dots> = uint l - 1 + off"
    using assms by (intro take_bit_int_eq_self) simp_all
  finally show ?thesis .
qed

lemma zero_minus_one_plus: "(0 :: u32) - 1 + word_of_int off = word_of_int (off - 1)"
  by simp

lemma uint_word_of_int_32: "uint (word_of_int k :: u32) = k mod 2 ^ 32"
  by (simp add: uint_word_of_int_eq take_bit_eq_mod)

section \<open>Runs of the toy kernels\<close>

lemma length_number_maxima [simp]: "length (number_maxima k xs) = length xs"
  by (induction k xs rule: number_maxima.induct) simp_all

lemma upt_0_2: "[0..<2] = [0, 1]"
  by (simp add: numeral_2_eq_2)

lemma toy_kernels_ok: "kernels_ok toy_kernels"
  by (simp add: kernels_ok_def ws_in_place_def toy_kernels_def euclidean_dt_def map_nd_def)

lemma toy_wf: "wf_ndarray toy_pmap"
  by (simp add: wf_ndarray_def toy_pmap_def)

lemma toy_shape: "ndim toy_pmap = 3" "shape toy_pmap ! 0 = 2" "shape toy_pmap ! 1 = 3"
  "shape toy_pmap ! 2 = 3"
  by (simp_all add: toy_pmap_def ndim_def)

lemma toy_dtm:
  "signed_anisotropic_dt toy_kernels toy_pmap (1 / 2) 1 True =
   \<lparr>shape = [2, 3, 3],
    data = [- 1, - 1, - 1, - 1, - 1, - 1, - 1, - 1, - 1, 1, 1, 1, 1, 1, 1, 1, 1, 1]\<rparr>"
  by (simp add: signed_anisotropic_dt_def binary_membranes_def toy_kernels_def toy_pmap_def
      map_nd_def mask_assign_def euclidean_dt_def sq_dist_def Let_def)

lemma toy_seeds_of_dtm:
  "anisotropic_seeds toy_kernels
     \<lparr>shape = [2, 3, 3],
      data = [- 1, - 1, - 1, - 1, - 1, - 1, - 1, - 1, - 1, 1, 1, 1, 1, 1, 1, 1, 1, 1]\<rparr>
     1 1 False = Inr toy_seeds"
  by (simp add: anisotropic_seeds_def seeds_step_def toy_kernels_def toy_seeds_def map_nd_def
      zeros_like_def get_slice_def set_slice_def slice_size_def Let_def upt_0_2)

lemma toy_seeds_run:
  "anisotropic_seeds toy_kernels (signed_anisotropic_dt toy_kernels toy_pmap (1 / 2) 1 True)
     1 1 False = Inr toy_seeds"
  by (simp only: toy_dtm toy_seeds_of_dtm)

lemma toy_stitch:
  "label_stitcher toy_kernels toy_pmap toy_seeds 0 2 = (toy_labels, 9)"
  by (simp add: label_stitcher_def stitch_step_def toy_kernels_def toy_seeds_def toy_pmap_def
      toy_labels_def get_slice_def set_slice_def slice_size_def Let_def upt_0_2)

lemma toy_run:
  "ws_anisotropic_distance_transform toy_kernels toy_pmap (1 / 2) 1 1 0 0 True True False =
   Inr (toy_labels, 9)"
  using toy_shape
  by (simp add: ws_anisotropic_distance_transform_def toy_seeds_run height_map_def toy_stitch)

lemma clear_wf: "wf_ndarray clear_pmap"
  by (simp add: wf_ndarray_def clear_pmap_def)

lemma clear_shape: "ndim clear_pmap = 3" "shape clear_pmap ! 0 = 2" "shape clear_pmap ! 1 = 3"
  "shape clear_pmap ! 2 = 3"
  by (simp_all add: clear_pmap_def ndim_def)

lemma clear_dtm:
  "signed_anisotropic_dt toy_kernels clear_pmap (1 / 2) 1 True =
   \<lparr>shape = [2, 3, 3], data = [sqrt 22, sqrt 22, sqrt 22, sqrt 22, sqrt 22, sqrt 22, sqrt 22, sqrt 22, sqrt 22,
            sqrt 22, sqrt 22, sqrt 22, sqrt 22, sqrt 22, sqrt 22, sqrt 22, sqrt 22, sqrt 22]\<rparr>"
  by (simp add: signed_anisotropic_dt_def binary_membranes_def toy_kernels_def clear_pmap_def
      map_nd_def mask_assign_def euclidean_dt_def saturation_def Let_def)

lemma clear_seeds_of_dtm:
  "anisotropic_seeds toy_kernels \<lparr>shape = [2, 3, 3], data = [sqrt 22, sqrt 22, sqrt 22, sqrt 22, sqrt 22, sqrt 22, sqrt 22, sqrt 22, sqrt 22,
            sqrt 22, sqrt 22, sqrt 22, sqrt 22, sqrt 22, sqrt 22, sqrt 22, sqrt 22, sqrt 22]\<rparr>
     1 1 False = Inr clear_seeds"
  by (simp add: anisotropic_seeds_def seeds_step_def toy_kernels_def clear_seeds_def map_nd_def
      zeros_like_def get_slice_def set_slice_def slice_size_def Let_def upt_0_2)

lemma clear_seeds_run:
  "anisotropic_seeds toy_kernels (signed_anisotropic_dt toy_kernels clear_pmap (1 / 2) 1 True)
     1 1 False = Inr clear_seeds"
  by (simp only: clear_dtm clear_seeds_of_dtm)

lemma clear_stitch:
  "label_stitcher toy_kernels clear_pmap clear_seeds 0 2 = (clear_labels, 18)"
  by (simp add: label_stitcher_def stitch_step_def toy_kernels_def clear_seeds_def
      clear_pmap_def clear_labels_def get_slice_def set_slice_def slice_size_def Let_def upt_0_2)

lemma clear_run:
  "ws_anisotropic_distance_transform toy_kernels clear_pmap (1 / 2) 1 1 0 0 True True False =
   Inr (clear_labels, 18)"
  using clear_shape
  by (simp add: ws_anisotropic_distance_transform_def clear_seeds_run height_map_def
      clear_stitch)

lemma clear_hmap:
  "height_map toy_kernels clear_pmap d True 0 = clear_pmap"
  by (simp add: height_map_def)

lemma toy_hmap:
  "height_map toy_kernels toy_pmap d True 0 = toy_pmap"
  by (simp add: height_map_def)

lemma clear_grown:
  "grown toy_kernels clear_pmap clear_seeds 0 0 = [1, 2, 3, 4, 5, 6, 7, 8, 9]"
  "grown toy_kernels clear_pmap clear_seeds 0 1 = [1, 2, 3, 4, 5, 6, 7, 8, 9]"
  "max_label toy_kernels clear_pmap clear_seeds 0 0 = 9"
  "max_label toy_kernels clear_pmap clear_seeds 0 1 = 9"
  by (simp_all add: grown_def max_label_def toy_kernels_def clear_seeds_def get_slice_def
      slice_size_def)

lemma clear_offsets:
  "running_offset toy_kernels clear_pmap clear_seeds 0 1 = 9"
  "running_offset toy_kernels clear_pmap clear_seeds 0 2 = 18"
proof -
  have "[0..<1] = [0 :: nat]" by simp
  then show "running_offset toy_kernels clear_pmap clear_seeds 0 1 = 9"
    by (simp only: running_offset_def list.map sum_list.Cons sum_list.Nil clear_grown)
  show "running_offset toy_kernels clear_pmap clear_seeds 0 2 = 18"
    by (simp only: running_offset_def upt_0_2 list.map sum_list.Cons sum_list.Nil clear_grown)
qed

lemma mixed_wf: "wf_ndarray mixed_pmap"
  by (simp add: wf_ndarray_def mixed_pmap_def)

lemma mixed_shape: "ndim mixed_pmap = 3" "shape mixed_pmap ! 0 = 2" "shape mixed_pmap ! 1 = 3"
  "shape mixed_pmap ! 2 = 3"
  by (simp_all add: mixed_pmap_def ndim_def)

lemma mixed_dtm:
  "signed_anisotropic_dt toy_kernels mixed_pmap (1 / 2) 1 True =
   \<lparr>shape = [2, 3, 3],
    data = [1, sqrt 2, sqrt 5, sqrt 2, sqrt 3, sqrt 6, sqrt 5, sqrt 6, 3,
            - 1, 1, 2, 1, sqrt 2, sqrt 5, 2, sqrt 5, sqrt 8]\<rparr>"
  by (simp add: signed_anisotropic_dt_def binary_membranes_def toy_kernels_def mixed_pmap_def
      map_nd_def mask_assign_def euclidean_dt_def sq_dist_def Let_def)

lemma mixed_seeds_of_dtm:
  "anisotropic_seeds toy_kernels
     \<lparr>shape = [2, 3, 3],
      data = [1, sqrt 2, sqrt 5, sqrt 2, sqrt 3, sqrt 6, sqrt 5, sqrt 6, 3,
              - 1, 1, 2, 1, sqrt 2, sqrt 5, 2, sqrt 5, sqrt 8]\<rparr>
     1 1 False = Inr mixed_seeds"
  by (simp add: anisotropic_seeds_def seeds_step_def toy_kernels_def mixed_seeds_def map_nd_def
      zeros_like_def get_slice_def set_slice_def slice_size_def Let_def upt_0_2)

lemma mixed_seeds_run:
  "anisotropic_seeds toy_kernels (signed_anisotropic_dt toy_kernels mixed_pmap (1 / 2) 1 True)
     1 1 False = Inr mixed_seeds"
  by (simp only: mixed_dtm mixed_seeds_of_dtm)

lemma mixed_stitch:
  "label_stitcher toy_kernels mixed_pmap mixed_seeds 0 2 = (mixed_labels, 17)"
  by (simp add: label_stitcher_def stitch_step_def toy_kernels_def mixed_seeds_def
      mixed_pmap_def mixed_labels_def get_slice_def set_slice_def slice_size_def Let_def upt_0_2)

lemma mixed_run:
  "ws_anisotropic_distance_transform toy_kernels mixed_pmap (1 / 2) 1 1 0 0 True True False =
   Inr (mixed_labels, 17)"
  using mixed_shape
  by (simp add: ws_anisotropic_distance_transform_def mixed_seeds_run height_map_def
      mixed_stitch)

lemma mixed_hmap:
  "height_map toy_kernels mixed_pmap d True 0 = mixed_pmap"
  by (simp add: height_map_def)

lemma mixed_grown:
  "grown toy_kernels mixed_pmap mixed_seeds 0 0 = [1, 2, 3, 4, 5, 6, 7, 8, 9]"
  "grown toy_kernels mixed_pmap mixed_seeds 0 1 = [0, 1, 2, 3, 4, 5, 6, 7, 8]"
  "max_label toy_kernels mixed_pmap mixed_seeds 0 0 = 9"
  by (simp_all add: grown_def max_label_def toy_kernels_def mixed_seeds_def get_slice_def
      slice_size_def)

lemma mixed_offset: "running_offset toy_kernels mixed_pmap mixed_seeds 0 1 = 9"
proof -
  have "[0..<1] = [0 :: nat]" by simp
  then show ?thesis
    by (simp only: running_offset_def list.map sum_list.Cons sum_list.Nil mixed_grown)
qed


section \<open>Offsets and the large volume\<close>


lemma running_offset_mono:
  assumes "\<And>z. z < nz \<Longrightarrow> 0 \<le> max_label K hmap seeds mss z"
  shows "b \<le> nz \<Longrightarrow> a \<le> b \<Longrightarrow>
         running_offset K hmap seeds mss a \<le> running_offset K hmap seeds mss b"
proof (induction b)
  case 0
  then show ?case by simp
next
  case (Suc b)
  show ?case
  proof (cases "a = Suc b")
    case True
    then show ?thesis by simp
  next
    case False
    then have "a \<le> b" using Suc.prems by simp
    then have "running_offset K hmap seeds mss a \<le> running_offset K hmap seeds mss b"
      using Suc by simp
    moreover have "0 \<le> max_label K hmap seeds mss b" using assms [of b] Suc.prems by simp
    ultimately show ?thesis by (simp add: running_offset_Suc)
  qed
qed

lemma length_grown:
  assumes "ws_in_place K" "length (data seeds) = nz * slice_size seeds" "z < nz"
  shows "length (grown K hmap seeds mss z) = slice_size seeds"
proof -
  have "length (data (get_slice seeds z)) = slice_size seeds"
    using slice_bound [OF assms(3), of "slice_size seeds"] assms(2)
    by (simp add: length_get_slice)
  then show ?thesis using assms(1) by (simp add: grown_def ws_in_place_def)
qed

lemma stitched_disjoint:
  assumes inpl: "ws_in_place K"
      and len: "length (data seeds) = nz * slice_size seeds"
      and within: "labels_within K hmap seeds mss nz"
      and total: "running_offset K hmap seeds mss nz \<le> 2 ^ 32"
      and z: "z1 < z2" "z2 < nz"
  shows "set (stitched_slice K hmap seeds mss z1) \<inter> set (stitched_slice K hmap seeds mss z2) = {}"
proof (rule ccontr)
  assume "set (stitched_slice K hmap seeds mss z1) \<inter> set (stitched_slice K hmap seeds mss z2) \<noteq> {}"
  then obtain v where v1: "v \<in> set (stitched_slice K hmap seeds mss z1)"
    and v2: "v \<in> set (stitched_slice K hmap seeds mss z2)" by blast
  define off where "off = running_offset K hmap seeds mss"
  define mx where "mx = max_label K hmap seeds mss"
  from v1 obtain l1 where l1: "l1 \<in> set (grown K hmap seeds mss z1)"
    and e1: "v = l1 - 1 + word_of_int (off z1)"
    by (auto simp: stitched_slice_def off_def)
  from v2 obtain l2 where l2: "l2 \<in> set (grown K hmap seeds mss z2)"
    and e2: "v = l2 - 1 + word_of_int (off z2)"
    by (auto simp: stitched_slice_def off_def)
  have z1: "z1 < nz" using z by simp
  have r1: "1 \<le> uint l1" "uint l1 \<le> mx z1"
    using within l1 z1 by (auto simp: labels_within_def mx_def)
  have r2: "1 \<le> uint l2" "uint l2 \<le> mx z2"
    using within l2 z(2) by (auto simp: labels_within_def mx_def)
  have ne: "slice_size seeds \<noteq> 0"
    using length_grown [OF inpl len z1, of hmap mss] l1
    by (metis length_pos_if_in_set less_numeral_extra(3))
  have pos: "0 \<le> max_label K hmap seeds mss z" if "z < nz" for z
  proof -
    have "grown K hmap seeds mss z \<noteq> []"
      using length_grown [OF inpl len that, of hmap mss] ne by auto
    then have "hd (grown K hmap seeds mss z) \<in> set (grown K hmap seeds mss z)"
      by (rule hd_in_set)
    then obtain l where "l \<in> set (grown K hmap seeds mss z)" ..
    then have "1 \<le> uint l" "uint l \<le> max_label K hmap seeds mss z"
      using within that by (auto simp: labels_within_def)
    then show ?thesis by simp
  qed
  note mono = running_offset_mono [of nz K hmap seeds mss, OF pos]
  have o0: "0 \<le> off z1" using mono [of z1 0] z1 by (simp add: off_def running_offset_def)
  have o2: "0 \<le> off z2" using mono [of z2 0] z(2) by (simp add: off_def running_offset_def)
  have s1: "off (Suc z1) = off z1 + mx z1" by (simp add: off_def mx_def running_offset_Suc)
  have s2: "off (Suc z2) = off z2 + mx z2" by (simp add: off_def mx_def running_offset_Suc)
  have m12: "off (Suc z1) \<le> off z2" using mono [of z2 "Suc z1"] z by (simp add: off_def)
  have m2n: "off (Suc z2) \<le> off nz" using mono [of nz "Suc z2"] z by (simp add: off_def)
  have tot: "off nz \<le> 2 ^ 32" using total by (simp add: off_def)
  have u1: "uint (l1 - 1 + word_of_int (off z1)) = uint l1 - 1 + off z1"
    using r1 o0 s1 m12 s2 m2n tot r2 by (intro uint_no_wrap) simp_all
  have u2: "uint (l2 - 1 + word_of_int (off z2)) = uint l2 - 1 + off z2"
    using r2 o2 s2 m2n tot by (intro uint_no_wrap) simp_all
  have "uint (l1 - 1 + word_of_int (off z1)) = uint (l2 - 1 + word_of_int (off z2))"
    using e1 e2 by (rule_tac arg_cong [where f = uint]) (rule trans [OF sym])
  then have "uint l1 - 1 + off z1 = uint l2 - 1 + off z2"
    by (simp only: u1 u2)
  then show False using r1 r2 s1 m12 by simp
qed



lemma number_maxima_all:
  "number_maxima k (replicate n None) = map word_of_nat [Suc k..<Suc (k + n)]"
proof (induction n arbitrary: k)
  case 0
  show ?case by simp
next
  case (Suc n)
  have "[Suc k..<Suc (k + Suc n)] = Suc k # [Suc (Suc k)..<Suc (Suc k + n)]"
    by (simp add: upt_conv_Cons)
  then show ?case using Suc.IH [of "Suc k"] by simp
qed

lemma number_maxima_ramp: "number_maxima 0 (replicate n None) = ramp n"
  using number_maxima_all [of 0 n] by (simp add: ramp_def)

lemma length_ramp [simp]: "length (ramp n) = n"
  by (simp add: ramp_def)

lemma foldl_max_upt:
  fixes f :: "nat \<Rightarrow> int"
  assumes "\<And>i j. i \<le> j \<Longrightarrow> j \<le> n \<Longrightarrow> f i \<le> f j" and "0 \<le> f 1"
  shows "foldl max 0 (map f [1..<Suc n]) = (if n = 0 then 0 else f n)"
  using assms
proof (induction n)
  case 0
  show ?case by simp
next
  case (Suc n)
  have ih: "foldl max 0 (map f [1..<Suc n]) = (if n = 0 then 0 else f n)"
    using Suc.prems by (intro Suc.IH) simp_all
  have "foldl max 0 (map f [1..<Suc (Suc n)]) = max (foldl max 0 (map f [1..<Suc n])) (f (Suc n))"
    by simp
  also have "\<dots> = f (Suc n)"
  proof (cases "n = 0")
    case True
    then show ?thesis using Suc.prems(2) ih by simp
  next
    case False
    have "f n \<le> f (Suc n)" using Suc.prems(1) [of n "Suc n"] by simp
    then show ?thesis using ih False by simp
  qed
  finally show ?case by simp
qed

lemma uint_word_of_nat_32: "k < 2 ^ 32 \<Longrightarrow> uint (word_of_nat k :: u32) = int k"
  by (simp add: uint_nat unat_of_nat)

lemma max_ramp:
  assumes "n < 2 ^ 32"
  shows "foldl max 0 (map uint (ramp n)) = int n"
proof -
  have eq: "map uint (ramp n) = map int [1..<Suc n]"
    using assms by (auto simp: ramp_def intro!: uint_word_of_nat_32)
  show ?thesis unfolding eq using foldl_max_upt [of n int] by simp
qed

lemma euclidean_dt_no_membrane:
  assumes "\<forall>x \<in> set (data a). x = 0"
  shows "euclidean_dt a True pitch =
         \<lparr>shape = shape a, data = replicate (length (data a)) (saturation pitch (shape a))\<rparr>"
proof -
  have z: "data a ! i = 0" if "i < length (data a)" for i using assms that by simp
  have f: "filter (\<lambda>j. (data a ! j \<noteq> 0) = True) [0..<length (data a)] = []"
    using z by (simp add: filter_empty_conv)
  have "data (euclidean_dt a True pitch) =
        map (\<lambda>i. saturation pitch (shape a)) [0..<length (data a)]"
    unfolding euclidean_dt_def ndarray.simps f
    by (rule map_cong) (simp_all add: z)
  then have "data (euclidean_dt a True pitch) =
        replicate (length (data a)) (saturation pitch (shape a))"
    by (simp add: map_replicate_const)
  moreover have "shape (euclidean_dt a True pitch) = shape a"
    by (simp add: euclidean_dt_def)
  ultimately show ?thesis by simp
qed

lemma mask_assign_none:
  assumes "\<forall>x \<in> set (data m). \<not> x" "length (data m) = length (data a)"
  shows "mask_assign a m v = a"
proof -
  have "map (\<lambda>i. if data m ! i then data v ! i else data a ! i) [0..<length (data a)] =
        map (\<lambda>i. data a ! i) [0..<length (data a)]"
  proof (rule map_cong)
    fix i assume "i \<in> set [0..<length (data a)]"
    then have "data m ! i \<in> set (data m)" using assms(2) by simp
    then have "\<not> data m ! i" using assms(1) by blast
    then show "(if data m ! i then data v ! i else data a ! i) = data a ! i" by simp
  qed simp
  then show ?thesis by (simp add: mask_assign_def map_nth)
qed

lemma big_sat_pos: "0 < big_sat"
proof -
  have "0 < (9 :: real) + (16 + (real big_extent)\<^sup>2)"
    by (intro add_pos_nonneg) simp_all
  then show ?thesis by (simp add: big_sat_def saturation_def)
qed

lemma big_dtm_run:
  "signed_anisotropic_dt toy_kernels big_pmap (1 / 2) 1 True = big_dtm"
proof -
  have b: "binary_membranes big_pmap (1 / 2) =
      \<lparr>shape = [3, 4, big_extent], data = replicate (3 * (4 * big_extent)) 0\<rparr>"
    by (simp add: binary_membranes_def map_nd_def big_pmap_def)
  have d: "euclidean_dt (binary_membranes big_pmap (1 / 2)) True [1, 1, 1] = big_dtm"
    unfolding b by (subst euclidean_dt_no_membrane) (simp_all add: big_sat_def big_dtm_def)
  have m: "mask_assign big_dtm (map_nd (\<lambda>b. b \<noteq> 0) (binary_membranes big_pmap (1 / 2)))
             (map_nd uminus big_pmap) = big_dtm"
    unfolding b by (rule mask_assign_none) (simp_all add: map_nd_def big_dtm_def)
  show ?thesis
    by (simp only: signed_anisotropic_dt_def Let_def toy_kernels_def kernels.simps d m if_True)
qed

lemma big_wf: "wf_ndarray big_pmap"
  by (simp add: wf_ndarray_def big_pmap_def)

lemma big_shape: "ndim big_pmap = 3" "shape big_pmap ! 0 = 3" "shape big_pmap ! 1 = 4"
  "shape big_pmap ! 2 = big_extent" "3 < big_extent"
  by (simp_all add: big_pmap_def ndim_def big_extent_def)

lemma big_dtm_slice:
  assumes "z < 3"
  shows "data (get_slice big_dtm z) = replicate (4 * big_extent) big_sat"
proof -
  have "z = 0 \<or> z = 1 \<or> z = 2" using assms by arith
  then show ?thesis
    by (auto simp: data_get_slice slice_size_def big_dtm_def)
qed

lemma big_seed_labels:
  assumes "z < 3"
  shows "seed_labels toy_kernels big_dtm big_dtm False z = ramp (4 * big_extent)"
  using big_sat_pos
  by (simp add: seed_labels_def toy_kernels_def map_nd_def big_dtm_slice [OF assms]
      number_maxima_ramp)

lemma list_split3:
  assumes "length d = 3 * n"
  shows "d = take n (drop (0 * n) d) @ take n (drop (1 * n) d) @ take n (drop (2 * n) d)"
proof -
  have a: "d = take n d @ drop n d" by (rule append_take_drop_id [symmetric])
  have b: "drop n d = take n (drop n d) @ drop n (drop n d)"
    by (rule append_take_drop_id [symmetric])
  have c: "drop n (drop n d) = take n (drop (2 * n) d)" using assms by (simp add: mult_2)
  have "d = take n d @ take n (drop n d) @ take n (drop (2 * n) d)"
    using a b c by metis
  then show ?thesis by simp
qed



lemma array_split3:
  assumes "shape a = [3, y, x]" "length (data a) = 3 * (y * x)"
  shows "data a = data (get_slice a 0) @ data (get_slice a 1) @ data (get_slice a 2)"
  using list_split3 [OF assms(2)] assms(1) by (simp add: data_get_slice slice_size_def)

lemma big_seeds_slice:
  assumes "z < 3"
  shows "data (get_slice big_seeds z) = ramp (4 * big_extent)"
proof -
  have "z = 0 \<or> z = 1 \<or> z = 2" using assms by arith
  then show ?thesis
    by (auto simp: data_get_slice slice_size_def big_seeds_def)
qed

lemma big_seeds_of_dtm: "anisotropic_seeds toy_kernels big_dtm 1 1 False = Inr big_seeds"
proof -
  obtain seeds where run: "anisotropic_seeds toy_kernels big_dtm 1 1 False = Inr seeds"
    by (simp add: anisotropic_seeds_def Let_def)
  have lend: "length (data big_dtm) = shape big_dtm ! 0 * slice_size big_dtm"
    by (simp add: big_dtm_def slice_size_def)
  have g: "gaussianSmoothing toy_kernels big_dtm s = big_dtm" for s
    by (simp add: toy_kernels_def)
  note t = anisotropic_seeds_slices [OF toy_kernels_ok lend run, unfolded g]
  have sh: "shape seeds = [3, 4, big_extent]" using t by (simp add: big_dtm_def)
  have len: "length (data seeds) = 3 * (4 * big_extent)" using t by (simp add: big_dtm_def)
  have sl: "data (get_slice seeds z) = ramp (4 * big_extent)" if "z < 3" for z
    using t that big_seed_labels [OF that] by (simp add: big_dtm_def)
  have "data seeds = ramp (4 * big_extent) @ ramp (4 * big_extent) @ ramp (4 * big_extent)"
    using array_split3 [OF sh len] sl by simp
  then have "seeds = big_seeds" using sh by (simp add: big_seeds_def)
  then show ?thesis using run by simp
qed

lemma big_seeds_run:
  "anisotropic_seeds toy_kernels (signed_anisotropic_dt toy_kernels big_pmap (1 / 2) 1 True)
     1 1 False = Inr big_seeds"
  by (simp only: big_dtm_run big_seeds_of_dtm)

lemma big_count: "4 * big_extent = (2147483648 :: nat)"
  by (simp add: big_extent_def)

lemma big_grown:
  assumes "z < 3"
  shows "grown toy_kernels big_pmap big_seeds 0 z = ramp (4 * big_extent)"
    and "max_label toy_kernels big_pmap big_seeds 0 z = 2147483648"
proof -
  show "grown toy_kernels big_pmap big_seeds 0 z = ramp (4 * big_extent)"
    by (simp add: grown_def toy_kernels_def big_seeds_slice [OF assms])
  have "foldl max 0 (map uint (ramp (4 * big_extent))) = int (4 * big_extent)"
    by (rule max_ramp) (simp add: big_count)
  then show "max_label toy_kernels big_pmap big_seeds 0 z = 2147483648"
    by (simp add: max_label_def toy_kernels_def big_seeds_slice [OF assms] big_count)
qed

lemma upt_0_3: "[0..<3] = [0, 1, 2]"
  by (simp add: numeral_3_eq_3)

lemma big_offsets:
  "running_offset toy_kernels big_pmap big_seeds 0 0 = 0"
  "running_offset toy_kernels big_pmap big_seeds 0 1 = 2147483648"
  "running_offset toy_kernels big_pmap big_seeds 0 2 = 4294967296"
  "running_offset toy_kernels big_pmap big_seeds 0 3 = 6442450944"
proof -
  have m: "max_label toy_kernels big_pmap big_seeds 0 0 = 2147483648"
    "max_label toy_kernels big_pmap big_seeds 0 1 = 2147483648"
    "max_label toy_kernels big_pmap big_seeds 0 2 = 2147483648"
    by (simp_all add: big_grown)
  have u: "[0..<1] = [0 :: nat]" by simp
  show "running_offset toy_kernels big_pmap big_seeds 0 0 = 0"
    by (simp add: running_offset_def)
  have "running_offset toy_kernels big_pmap big_seeds 0 1 = 2147483648 + 0"
    by (simp only: running_offset_def u list.map sum_list.Cons sum_list.Nil m)
  then show "running_offset toy_kernels big_pmap big_seeds 0 1 = 2147483648" by simp
  have "running_offset toy_kernels big_pmap big_seeds 0 2 = 2147483648 + (2147483648 + 0)"
    by (simp only: running_offset_def upt_0_2 list.map sum_list.Cons sum_list.Nil m)
  then show "running_offset toy_kernels big_pmap big_seeds 0 2 = 4294967296" by simp
  have "running_offset toy_kernels big_pmap big_seeds 0 3 =
        2147483648 + (2147483648 + (2147483648 + 0))"
    by (simp only: running_offset_def upt_0_3 list.map sum_list.Cons sum_list.Nil m)
  then show "running_offset toy_kernels big_pmap big_seeds 0 3 = 6442450944" by simp
qed

lemma big_stitched:
  "stitched_slice toy_kernels big_pmap big_seeds 0 0 = map (\<lambda>l. l - 1) (ramp (4 * big_extent))"
  "stitched_slice toy_kernels big_pmap big_seeds 0 1 =
     map (\<lambda>l. l - 1 + 2147483648) (ramp (4 * big_extent))"
  "stitched_slice toy_kernels big_pmap big_seeds 0 2 = map (\<lambda>l. l - 1) (ramp (4 * big_extent))"
proof -
  have g: "grown toy_kernels big_pmap big_seeds 0 0 = ramp (4 * big_extent)"
    "grown toy_kernels big_pmap big_seeds 0 1 = ramp (4 * big_extent)"
    "grown toy_kernels big_pmap big_seeds 0 2 = ramp (4 * big_extent)"
    by (simp_all add: big_grown)
  show "stitched_slice toy_kernels big_pmap big_seeds 0 0 =
        map (\<lambda>l. l - 1) (ramp (4 * big_extent))"
    unfolding stitched_slice_def g big_offsets by simp
  show "stitched_slice toy_kernels big_pmap big_seeds 0 1 =
        map (\<lambda>l. l - 1 + 2147483648) (ramp (4 * big_extent))"
    unfolding stitched_slice_def g big_offsets by simp
  show "stitched_slice toy_kernels big_pmap big_seeds 0 2 =
        map (\<lambda>l. l - 1) (ramp (4 * big_extent))"
    unfolding stitched_slice_def g big_offsets by simp
qed

lemma big_hmap: "height_map toy_kernels big_pmap d True 0 = big_pmap"
  by (simp add: height_map_def)

lemma big_run:
  "ws_anisotropic_distance_transform toy_kernels big_pmap (1 / 2) 1 1 0 0 True True False =
   Inr (big_labels, 6442450944)"
proof -
  obtain labels n where run:
    "ws_anisotropic_distance_transform toy_kernels big_pmap (1 / 2) 1 1 0 0 True True False =
     Inr (labels, n)"
    using big_shape
    by (simp add: ws_anisotropic_distance_transform_def big_seeds_run) (metis surj_pair)
  note p = pipeline_stitched [OF toy_kernels_ok big_wf run refl big_seeds_run refl,
      unfolded big_hmap big_shape]
  have sh: "shape labels = [3, 4, big_extent]" using p by (simp add: big_pmap_def)
  have len: "length (data labels) = 3 * (4 * big_extent)" using p by (simp add: big_pmap_def)
  have n: "n = 6442450944" using p by (simp add: big_offsets)
  have st: "data (get_slice labels z) = stitched_slice toy_kernels big_pmap big_seeds 0 z"
    if "z < 3" for z using p that by simp
  have sl: "data (get_slice labels 0) = map (\<lambda>l. l - 1) (ramp (4 * big_extent))"
    "data (get_slice labels 1) = map (\<lambda>l. l - 1 + 2147483648) (ramp (4 * big_extent))"
    "data (get_slice labels 2) = map (\<lambda>l. l - 1) (ramp (4 * big_extent))"
    using st [of 0] st [of 1] st [of 2] big_stitched by simp_all
  have "data labels = data big_labels"
    using array_split3 [OF sh len] sl by (simp add: big_labels_def)
  then have "labels = big_labels" using sh by (simp add: big_labels_def)
  then show ?thesis using run n by simp
qed

lemma big_labels_slice:
  "data (get_slice big_labels 0) = map (\<lambda>l. l - 1) (ramp (4 * big_extent))"
  "data (get_slice big_labels 2) = map (\<lambda>l. l - 1) (ramp (4 * big_extent))"
  by (simp_all add: data_get_slice slice_size_def big_labels_def)

lemma two_in_ramp: "2 \<in> set (ramp (4 * big_extent))"
proof -
  have "(2 :: nat) \<in> set [1..<Suc (4 * big_extent)]" by (simp add: big_count)
  then have "word_of_nat 2 \<in> set (ramp (4 * big_extent))"
    unfolding ramp_def set_map by (rule imageI)
  then show ?thesis by simp
qed

lemma one_in_big_slice: "1 \<in> set (map (\<lambda>l. l - 1) (ramp (4 * big_extent)))"
proof -
  have "(2 :: u32) - 1 \<in> (\<lambda>l. l - 1) ` set (ramp (4 * big_extent))"
    using two_in_ramp by (rule imageI)
  then show ?thesis by simp
qed

lemma big_within: "labels_within toy_kernels big_pmap big_seeds 0 3"
proof -
  have "1 \<le> uint l \<and> uint l \<le> 2147483648" if "l \<in> set (ramp (4 * big_extent))" for l
  proof -
    from that have "l \<in> word_of_nat ` set [1..<Suc (4 * big_extent)]"
      unfolding ramp_def set_map .
    then obtain k where kk: "k \<in> set [1..<Suc (4 * big_extent)]" and l: "l = word_of_nat k"
      by (rule imageE)
    have k: "1 \<le> k" "k \<le> 4 * big_extent" using kk by auto
    have "uint l = int k" unfolding l using k by (intro uint_word_of_nat_32) (simp add: big_count)
    then show ?thesis using k by (simp add: big_count)
  qed
  then show ?thesis by (simp add: labels_within_def big_grown)
qed



lemma clear_within: "labels_within toy_kernels clear_pmap clear_seeds 0 2"
proof -
  have "\<forall>l \<in> set (grown toy_kernels clear_pmap clear_seeds 0 z).
          1 \<le> uint l \<and> uint l \<le> max_label toy_kernels clear_pmap clear_seeds 0 z"
    if "z < 2" for z
  proof -
    have "z = 0 \<or> z = 1" using that by arith
    then show ?thesis using clear_grown by auto
  qed
  then show ?thesis by (simp add: labels_within_def)
qed

lemma uint_stitched:
  fixes l :: u32
  shows "uint (l - 1 + word_of_int off) = (uint l - 1 + off) mod 2 ^ 32"
proof -
  have "l - 1 + word_of_int off = word_of_int (uint l - 1 + off)" by simp
  then show ?thesis by (simp only: uint_word_of_int_32)
qed

section \<open>The shape assertions\<close>

lemma anisotropic_seeds_not_assertion:
  "anisotropic_seeds K d a s g \<noteq> Inl AssertionError"
  by (simp add: anisotropic_seeds_def Let_def)

text \<open>
  Claim C7. The entry point ends in the assertion failure exactly when the input is not
  three-dimensional or its first extent is not strictly smaller than both others. The
  outcome is then the same for every choice of kernels: no kernel is consulted.
\<close>

theorem shape_assertion_iff:
  "(ws_anisotropic_distance_transform K pmap threshold anisotropy sigma_seeds sigma_weights
       min_segment_size preserve_membrane_pmaps grow_on_pmap group_seeds = Inl AssertionError)
   = (\<not> (ndim pmap = 3 \<and> shape pmap ! 0 < shape pmap ! 1 \<and> shape pmap ! 0 < shape pmap ! 2))"
proof (cases "ndim pmap = 3 \<and> shape pmap ! 0 < shape pmap ! 1 \<and> shape pmap ! 0 < shape pmap ! 2")
  case True
  then show ?thesis
    using anisotropic_seeds_not_assertion
    by (auto simp: ws_anisotropic_distance_transform_def Let_def split: sum.splits)
next
  case False
  then show ?thesis
    by (auto simp: ws_anisotropic_distance_transform_def)
qed

theorem shape_assertion_iff_witness:
  "ws_anisotropic_distance_transform toy_kernels flat_pmap (1 / 2) 1 1 0 0 True True False =
     Inl AssertionError \<and>
   ws_anisotropic_distance_transform toy_kernels cube_pmap (1 / 2) 1 1 0 0 True True False =
     Inl AssertionError \<and>
   ws_anisotropic_distance_transform toy_kernels toy_pmap (1 / 2) 1 1 0 0 True True False \<noteq>
     Inl AssertionError"
proof -
  have "ws_anisotropic_distance_transform toy_kernels flat_pmap (1 / 2) 1 1 0 0 True True False =
     Inl AssertionError"
    using shape_assertion_iff [of toy_kernels flat_pmap "1 / 2" 1 1 0 0 True True False]
    by (simp add: flat_pmap_def ndim_def)
  moreover have
    "ws_anisotropic_distance_transform toy_kernels cube_pmap (1 / 2) 1 1 0 0 True True False =
     Inl AssertionError"
    using shape_assertion_iff [of toy_kernels cube_pmap "1 / 2" 1 1 0 0 True True False]
    by (simp add: cube_pmap_def ndim_def)
  moreover have
    "ws_anisotropic_distance_transform toy_kernels toy_pmap (1 / 2) 1 1 0 0 True True False \<noteq>
     Inl AssertionError"
    using shape_assertion_iff [of toy_kernels toy_pmap "1 / 2" 1 1 0 0 True True False] toy_shape
    by simp
  ultimately show ?thesis by simp
qed


section \<open>The label stitcher\<close>

text \<open>
  Claim C1. On a run that returns, the slices are handled in increasing order of \<open>z\<close>:
  slice \<open>z\<close> of the returned labels is the grown slice with every label (so every
  positive one) decremented by 1 and the running offset added, in \<^verbatim>\<open>uint32\<close> arithmetic;
  the running offset starts at 0 and grows by the maximal label the watershed returned
  for the slice; the returned count is the running offset after the last slice.
\<close>

theorem stitcher_relabels_slices:
  assumes "kernels_ok K" and "wf_ndarray pmap"
      and "ws_anisotropic_distance_transform K pmap th a ss sw mss pr gr gs = Inr (labels, n)"
      and "dtm = signed_anisotropic_dt K pmap th a pr"
      and "anisotropic_seeds K dtm a ss gs = Inr seeds"
      and "hmap = height_map K pmap dtm gr sw"
  shows "(\<forall>z < shape pmap ! 0.
            data (get_slice labels z) =
            map (\<lambda>l. l - 1 + word_of_int (running_offset K hmap seeds mss z))
              (grown K hmap seeds mss z)) \<and>
         running_offset K hmap seeds mss 0 = 0 \<and>
         (\<forall>z. running_offset K hmap seeds mss (Suc z) =
              running_offset K hmap seeds mss z + max_label K hmap seeds mss z) \<and>
         n = running_offset K hmap seeds mss (shape pmap ! 0)"
  using pipeline_stitched [OF assms]
  by (simp add: stitched_slice_def running_offset_Suc) (simp add: running_offset_def)

theorem stitcher_relabels_slices_witness:
  "kernels_ok toy_kernels \<and> wf_ndarray clear_pmap \<and>
   ws_anisotropic_distance_transform toy_kernels clear_pmap (1 / 2) 1 1 0 0 True True False =
     Inr (clear_labels, 18) \<and>
   anisotropic_seeds toy_kernels (signed_anisotropic_dt toy_kernels clear_pmap (1 / 2) 1 True)
     1 1 False = Inr clear_seeds \<and>
   data (get_slice clear_labels 1) =
     map (\<lambda>l. l - 1 + word_of_int (running_offset toy_kernels clear_pmap clear_seeds 0 1))
       (grown toy_kernels clear_pmap clear_seeds 0 1) \<and>
   running_offset toy_kernels clear_pmap clear_seeds 0 0 = 0 \<and>
   running_offset toy_kernels clear_pmap clear_seeds 0 1 = 9 \<and>
   running_offset toy_kernels clear_pmap clear_seeds 0 2 =
     running_offset toy_kernels clear_pmap clear_seeds 0 1 +
     max_label toy_kernels clear_pmap clear_seeds 0 1 \<and>
   (18 :: int) = running_offset toy_kernels clear_pmap clear_seeds 0 2"
proof -
  note t = stitcher_relabels_slices [OF toy_kernels_ok clear_wf clear_run refl clear_seeds_run
      refl, unfolded clear_hmap clear_shape]
  have a: "data (get_slice clear_labels 1) =
     map (\<lambda>l. l - 1 + word_of_int (running_offset toy_kernels clear_pmap clear_seeds 0 1))
       (grown toy_kernels clear_pmap clear_seeds 0 1)"
    using t by simp
  have b: "(18 :: int) = running_offset toy_kernels clear_pmap clear_seeds 0 2"
    using t by simp
  show ?thesis
    using a b toy_kernels_ok clear_wf clear_run clear_seeds_run clear_offsets clear_grown
    by (simp add: running_offset_def)
qed

text \<open>
  Claim C10. The subtraction and the addition act on every element of the slice: slice
  \<open>z\<close> of the result has as many elements as the grown slice, and each of them, whatever
  its label, is the grown label minus 1 plus the offset in \<^verbatim>\<open>uint32\<close> arithmetic. So a
  voxel the watershed leaves at label 0 ends at \<open>(offset - 1) mod 2 ^ 32\<close>; it stays 0
  only where that number is 0.
\<close>

theorem every_voxel_relabelled:
  assumes "kernels_ok K" and "wf_ndarray pmap"
      and "ws_anisotropic_distance_transform K pmap th a ss sw mss pr gr gs = Inr (labels, n)"
      and "dtm = signed_anisotropic_dt K pmap th a pr"
      and "anisotropic_seeds K dtm a ss gs = Inr seeds"
      and "hmap = height_map K pmap dtm gr sw"
      and z: "z < shape pmap ! 0" and i: "i < length (grown K hmap seeds mss z)"
  shows "length (data (get_slice labels z)) = length (grown K hmap seeds mss z) \<and>
         data (get_slice labels z) ! i =
           grown K hmap seeds mss z ! i - 1 + word_of_int (running_offset K hmap seeds mss z) \<and>
         uint (data (get_slice labels z) ! i) =
           (uint (grown K hmap seeds mss z ! i) - 1 + running_offset K hmap seeds mss z)
             mod 2 ^ 32 \<and>
         (grown K hmap seeds mss z ! i = 0 \<longrightarrow>
            data (get_slice labels z) ! i =
              word_of_int (running_offset K hmap seeds mss z - 1) \<and>
            uint (data (get_slice labels z) ! i) =
              (running_offset K hmap seeds mss z - 1) mod 2 ^ 32 \<and>
            (data (get_slice labels z) ! i = 0) =
              ((running_offset K hmap seeds mss z - 1) mod 2 ^ 32 = 0))"
proof -
  have s: "data (get_slice labels z) = stitched_slice K hmap seeds mss z"
    using pipeline_stitched [OF assms(1-6)] z by simp
  have len: "length (data (get_slice labels z)) = length (grown K hmap seeds mss z)"
    unfolding s by (simp add: stitched_slice_def)
  have e: "data (get_slice labels z) ! i =
      grown K hmap seeds mss z ! i - 1 + word_of_int (running_offset K hmap seeds mss z)"
    unfolding s using i by (simp add: stitched_slice_def)
  have u: "uint (data (get_slice labels z) ! i) =
      (uint (grown K hmap seeds mss z ! i) - 1 + running_offset K hmap seeds mss z) mod 2 ^ 32"
    unfolding e by (rule uint_stitched)
  have zero: "data (get_slice labels z) ! i =
        word_of_int (running_offset K hmap seeds mss z - 1) \<and>
      uint (data (get_slice labels z) ! i) =
        (running_offset K hmap seeds mss z - 1) mod 2 ^ 32 \<and>
      (data (get_slice labels z) ! i = 0) =
        ((running_offset K hmap seeds mss z - 1) mod 2 ^ 32 = 0)"
    if g: "grown K hmap seeds mss z ! i = 0"
  proof -
    have w: "data (get_slice labels z) ! i =
        word_of_int (running_offset K hmap seeds mss z - 1)"
      unfolding e g by (rule zero_minus_one_plus)
    have v: "uint (data (get_slice labels z) ! i) =
        (running_offset K hmap seeds mss z - 1) mod 2 ^ 32"
      unfolding w by (rule uint_word_of_int_32)
    have "(data (get_slice labels z) ! i = 0) = (uint (data (get_slice labels z) ! i) = 0)"
      by (simp add: uint_0_iff)
    then show ?thesis using w v by simp
  qed
  show ?thesis using len e u zero by blast
qed

theorem every_voxel_relabelled_witness:
  "kernels_ok toy_kernels \<and> wf_ndarray mixed_pmap \<and>
   ws_anisotropic_distance_transform toy_kernels mixed_pmap (1 / 2) 1 1 0 0 True True False =
     Inr (mixed_labels, 17) \<and>
   anisotropic_seeds toy_kernels (signed_anisotropic_dt toy_kernels mixed_pmap (1 / 2) 1 True)
     1 1 False = Inr mixed_seeds \<and>
   (1 :: nat) < shape mixed_pmap ! 0 \<and>
   (0 :: nat) < length (grown toy_kernels mixed_pmap mixed_seeds 0 1) \<and>
   (1 :: nat) < length (grown toy_kernels mixed_pmap mixed_seeds 0 1) \<and>
   running_offset toy_kernels mixed_pmap mixed_seeds 0 1 = 9 \<and>
   grown toy_kernels mixed_pmap mixed_seeds 0 1 ! 0 = 0 \<and>
   grown toy_kernels mixed_pmap mixed_seeds 0 1 ! 1 = 1 \<and>
   length (data (get_slice mixed_labels 1)) = 9 \<and>
   data (get_slice mixed_labels 1) ! 0 = 8 \<and>
   uint (data (get_slice mixed_labels 1) ! 0) = (9 - 1) mod 2 ^ 32 \<and>
   data (get_slice mixed_labels 1) ! 0 \<noteq> 0 \<and>
   data (get_slice mixed_labels 1) ! 1 = 9 \<and>
   uint (data (get_slice mixed_labels 1) ! 1) = (1 - 1 + 9) mod 2 ^ 32"
proof -
  have z: "(1 :: nat) < shape mixed_pmap ! 0" using mixed_shape by simp
  have i0: "(0 :: nat) < length (grown toy_kernels mixed_pmap mixed_seeds 0 1)"
    and i1: "(1 :: nat) < length (grown toy_kernels mixed_pmap mixed_seeds 0 1)"
    and g0: "grown toy_kernels mixed_pmap mixed_seeds 0 1 ! 0 = 0"
    and g1: "grown toy_kernels mixed_pmap mixed_seeds 0 1 ! 1 = 1"
    and gl: "length (grown toy_kernels mixed_pmap mixed_seeds 0 1) = 9"
    using mixed_grown(2) by simp_all
  note t0 = every_voxel_relabelled [OF toy_kernels_ok mixed_wf mixed_run refl mixed_seeds_run
      refl, unfolded mixed_hmap, OF z i0, unfolded mixed_offset g0 gl]
  note t1 = every_voxel_relabelled [OF toy_kernels_ok mixed_wf mixed_run refl mixed_seeds_run
      refl, unfolded mixed_hmap, OF z i1, unfolded mixed_offset g1 gl]
  have a: "length (data (get_slice mixed_labels 1)) = 9" using t0 by blast
  have b: "data (get_slice mixed_labels 1) ! 0 = 8"
    "uint (data (get_slice mixed_labels 1) ! 0) = (9 - 1) mod 2 ^ 32"
    "data (get_slice mixed_labels 1) ! 0 \<noteq> 0"
    using t0 by simp_all
  have c: "data (get_slice mixed_labels 1) ! 1 = 9"
    "uint (data (get_slice mixed_labels 1) ! 1) = (1 - 1 + 9) mod 2 ^ 32"
    using t1 by simp_all
  show ?thesis
    using toy_kernels_ok mixed_wf mixed_run mixed_seeds_run z i0 i1 g0 g1 mixed_offset a b c
    by simp
qed

section \<open>The signed distance field\<close>

lemma length_binary_membranes [simp]:
  "length (data (binary_membranes pmap threshold)) = length (data pmap)"
  by (simp add: binary_membranes_def map_nd_def)

lemma nth_binary_membranes:
  "i < length (data pmap) \<Longrightarrow>
   data (binary_membranes pmap threshold) ! i = (if threshold \<le> data pmap ! i then 1 else 0)"
  by (simp add: binary_membranes_def map_nd_def)

lemma length_dt:
  "kernels_ok K \<Longrightarrow> length (data (distanceTransform K a b p)) = length (data a)"
  by (simp add: kernels_ok_def)

lemma signed_dt_preserve_nth:
  assumes "kernels_ok K" "i < length (data pmap)"
  shows "data (signed_anisotropic_dt K pmap threshold anisotropy True) ! i =
         (if threshold \<le> data pmap ! i then - (data pmap ! i)
          else data (distanceTransform K (binary_membranes pmap threshold) True
                       [anisotropy, 1, 1]) ! i)"
  using assms
  by (simp add: signed_anisotropic_dt_def Let_def mask_assign_def map_nd_def length_dt
      nth_binary_membranes)

lemma signed_dt_distance_nth:
  assumes "kernels_ok K" "i < length (data pmap)"
  shows "data (signed_anisotropic_dt K pmap threshold anisotropy False) ! i =
         data (distanceTransform K (binary_membranes pmap threshold) True
                 [anisotropy, 1, 1]) ! i -
         shrink_positive
           (data (distanceTransform K (binary_membranes pmap threshold) False
                    [anisotropy, 1, 1]) ! i)"
  using assms
  by (simp add: signed_anisotropic_dt_def Let_def map2_nd_def map_nd_def length_dt)

text \<open>
  Claim C5. With \<^verbatim>\<open>preserve_membrane_pmaps\<close> the field at every voxel of the mask
  (\<open>threshold \<le> p\<close>) is the negated probability. Without it the builder takes the
  distance transform with \<^verbatim>\<open>background=False\<close>, subtracts 1 from its strictly positive
  values and subtracts the result from \<^verbatim>\<open>distance_to_membrane\<close>.
\<close>

theorem signed_field_construction:
  assumes "kernels_ok K" and "i < length (data pmap)"
  shows "(threshold \<le> data pmap ! i \<longrightarrow>
            data (signed_anisotropic_dt K pmap threshold anisotropy True) ! i =
            - (data pmap ! i)) \<and>
         data (signed_anisotropic_dt K pmap threshold anisotropy False) ! i =
           data (distanceTransform K (binary_membranes pmap threshold) True
                   [anisotropy, 1, 1]) ! i -
           (let d = data (distanceTransform K (binary_membranes pmap threshold) False
                            [anisotropy, 1, 1]) ! i
            in if 0 < d then d - 1 else d) \<and>
         data (binary_membranes pmap threshold) ! i =
           (if threshold \<le> data pmap ! i then 1 else 0)"
  using signed_dt_preserve_nth [OF assms] signed_dt_distance_nth [OF assms]
    nth_binary_membranes [OF assms(2)]
  by (simp add: shrink_positive_def Let_def)

lemma toy_dtm_distance:
  "signed_anisotropic_dt toy_kernels toy_pmap (1 / 2) 1 False =
   \<lparr>shape = [2, 3, 3],
    data = [0, 0, 0, 0, 0, 0, 0, 0, 0, 1, 1, 1, 1, 1, 1, 1, 1, 1]\<rparr>"
  by (simp add: signed_anisotropic_dt_def binary_membranes_def toy_kernels_def toy_pmap_def
      map_nd_def map2_nd_def euclidean_dt_def sq_dist_def shrink_positive_def Let_def)

theorem signed_field_construction_witness:
  "kernels_ok toy_kernels \<and> (0 :: nat) < length (data toy_pmap) \<and>
   (1 / 2 :: real) \<le> data toy_pmap ! 0 \<and>
   data (signed_anisotropic_dt toy_kernels toy_pmap (1 / 2) 1 True) ! 0 = - (data toy_pmap ! 0) \<and>
   data (signed_anisotropic_dt toy_kernels toy_pmap (1 / 2) 1 False) ! 0 =
     data (distanceTransform toy_kernels (binary_membranes toy_pmap (1 / 2)) True [1, 1, 1]) ! 0 -
     (let d = data (distanceTransform toy_kernels (binary_membranes toy_pmap (1 / 2)) False
                      [1, 1, 1]) ! 0
      in if 0 < d then d - 1 else d) \<and>
   data (signed_anisotropic_dt toy_kernels toy_pmap (1 / 2) 1 False) ! 0 = 0 \<and>
   data (binary_membranes toy_pmap (1 / 2)) ! 0 = 1"
proof -
  have i: "(0 :: nat) < length (data toy_pmap)" by (simp add: toy_pmap_def)
  have m: "(1 / 2 :: real) \<le> data toy_pmap ! 0" by (simp add: toy_pmap_def)
  note t = signed_field_construction [OF toy_kernels_ok i, of "1 / 2" 1]
  have z: "data (signed_anisotropic_dt toy_kernels toy_pmap (1 / 2) 1 False) ! 0 = 0"
    by (simp add: toy_dtm_distance)
  show ?thesis using t i m z toy_kernels_ok by simp
qed

section \<open>The smoothing scales\<close>

text \<open>
  Claim C3 fails on the code: \<^verbatim>\<open>anisotropic_seeds\<close> never reads \<open>sigma_seeds\<close>. For
  an anisotropy of 2 and \<open>sigma_seeds = 3\<close> the field is smoothed with the scales
  \<open>(1 / 2, 1, 1)\<close>, not \<open>(3 / 2, 3, 3)\<close>, and the result is the one for \<open>sigma_seeds = 1\<close>.
\<close>

theorem sigma_seeds_unused:
  "anisotropic_seeds K distance_to_membrane 2 3 group_seeds =
     Inr (foldl (seeds_step K (gaussianSmoothing K distance_to_membrane (PerAxis [1 / 2, 1, 1]))
                   distance_to_membrane group_seeds)
            (zeros_like distance_to_membrane) [0..<shape distance_to_membrane ! 0]) \<and>
   anisotropic_seeds K distance_to_membrane anisotropy 3 group_seeds =
   anisotropic_seeds K distance_to_membrane anisotropy 1 group_seeds"
  by (simp add: anisotropic_seeds_def Let_def)

text \<open>
  Claim C4. The height map is the probability map when \<^verbatim>\<open>grow_on_pmap\<close> is set and the
  negated distance field otherwise, and it is left as it is for \<open>sigma_weights = 0\<close>. The
  smoothing part of the claim fails on the code: for \<open>sigma_weights = 2\<close> the kernel is
  called with the scale \<open>1 / 2\<close>.
\<close>

theorem height_map_selection:
  "height_map K pmap distance_to_membrane True 0 = pmap \<and>
   height_map K pmap distance_to_membrane False 0 = map_nd uminus distance_to_membrane \<and>
   height_map K pmap distance_to_membrane True 2 = gaussianSmoothing K pmap (Scalar (1 / 2)) \<and>
   height_map K pmap distance_to_membrane False 2 =
     gaussianSmoothing K (map_nd uminus distance_to_membrane) (Scalar (1 / 2))"
  by (simp add: height_map_def Let_def map_nd_def)


section \<open>The sign of the distance field\<close>


lemma length_unravel_index [simp]: "length (unravel_index sh i) = length sh"
  by (induction sh arbitrary: i) simp_all

lemma unravel_index_inj:
  "i < prod_list sh \<Longrightarrow> j < prod_list sh \<Longrightarrow> unravel_index sh i = unravel_index sh j \<Longrightarrow> i = j"
proof (induction sh arbitrary: i j)
  case Nil
  then show ?case by simp
next
  case (Cons d ds)
  have pos: "0 < prod_list ds" using Cons.prems(1) by (cases "prod_list ds = 0") simp_all
  have q: "i div prod_list ds = j div prod_list ds"
    and r: "unravel_index ds (i mod prod_list ds) = unravel_index ds (j mod prod_list ds)"
    using Cons.prems(3) by simp_all
  have "i mod prod_list ds = j mod prod_list ds"
    using pos r by (intro Cons.IH) simp_all
  then show ?case using q by (metis div_mult_mod_eq)
qed

lemma sq_dist_Cons:
  "sq_dist (w # ws) (a # as) (b # bs) = (w * (real a - real b))\<^sup>2 + sq_dist ws as bs"
  by (simp add: sq_dist_def)

lemma sq_dist_nonneg: "0 \<le> sq_dist pitch p q"
  unfolding sq_dist_def by (rule sum_list_nonneg) auto

lemma sq_term_ge_1:
  fixes w :: real
  assumes "1 \<le> \<bar>w\<bar>" "a \<noteq> (b :: nat)"
  shows "1 \<le> (w * (real a - real b))\<^sup>2"
proof -
  have "1 \<le> \<bar>real a - real b\<bar>" using assms(2) by (cases "a < b") simp_all
  then have "1 * 1 \<le> \<bar>w\<bar> * \<bar>real a - real b\<bar>"
    using assms(1) by (intro mult_mono) simp_all
  then have "1 \<le> \<bar>w * (real a - real b)\<bar>" by (simp add: abs_mult)
  then have "1\<^sup>2 \<le> \<bar>w * (real a - real b)\<bar>\<^sup>2" by (intro power_mono) simp_all
  then show ?thesis by simp
qed

lemma sq_dist_ge_1:
  assumes "length pitch = length p" "length p = length q" "\<forall>w \<in> set pitch. 1 \<le> \<bar>w\<bar>"
    "p \<noteq> q"
  shows "1 \<le> sq_dist pitch p q"
  using assms
proof (induction pitch p q rule: list_induct3)
  case Nil
  then show ?case by simp
next
  case (Cons w ws a as b bs)
  show ?case
  proof (cases "a = b")
    case True
    then have "as \<noteq> bs" using Cons.prems by simp
    then have "1 \<le> sq_dist ws as bs" using Cons by simp
    then show ?thesis using True by (simp add: sq_dist_Cons)
  next
    case False
    have "1 \<le> (w * (real a - real b))\<^sup>2"
      using Cons.prems False by (intro sq_term_ge_1) simp_all
    then show ?thesis using sq_dist_nonneg [of ws as bs] by (simp add: sq_dist_Cons)
  qed
qed

lemma sq_dist_pos:
  assumes "length pitch = length p" "length p = length q" "\<forall>w \<in> set pitch. w \<noteq> 0"
    "p \<noteq> q"
  shows "0 < sq_dist pitch p q"
  using assms
proof (induction pitch p q rule: list_induct3)
  case Nil
  then show ?case by simp
next
  case (Cons w ws a as b bs)
  show ?case
  proof (cases "a = b")
    case True
    then have "as \<noteq> bs" using Cons.prems by simp
    then have "0 < sq_dist ws as bs" using Cons by simp
    then show ?thesis using True by (simp add: sq_dist_Cons)
  next
    case False
    have "w * (real a - real b) \<noteq> 0" using Cons.prems False by simp
    then have "0 < (w * (real a - real b))\<^sup>2" by simp
    then show ?thesis
      using sq_dist_nonneg [of ws as bs] by (simp add: sq_dist_Cons add_pos_nonneg)
  qed
qed

lemma min_list_mem:
  fixes xs :: "real list"
  assumes "xs \<noteq> []"
  shows "min_list xs \<in> set xs"
proof -
  have "min_list xs = Min (set xs)" using assms by (rule min_list_Min)
  moreover have "Min (set xs) \<in> set xs" using assms by (intro Min_in) simp_all
  ultimately show ?thesis by simp
qed

lemma saturation_ge_1:
  assumes "0 < x"
  shows "1 \<le> saturation [a, 1, 1] [z, y, x]"
proof -
  have "1 \<le> (real x)\<^sup>2" using assms by simp
  moreover have "0 \<le> (a * real z)\<^sup>2 + (real y)\<^sup>2" by simp
  ultimately have "1 \<le> (a * real z)\<^sup>2 + ((real y)\<^sup>2 + (real x)\<^sup>2)" by linarith
  then show ?thesis by (simp add: saturation_def)
qed

lemma euclidean_dt_own_class:
  assumes "i < length (data A)" "(data A ! i \<noteq> 0) = background"
  shows "data (euclidean_dt A background pitch) ! i = 0"
  using assms by (simp add: euclidean_dt_def)

text \<open>
  A voxel of the other class gets the saturation value or its distance to some other
  voxel.
\<close>

lemma euclidean_dt_other_class_cases:
  assumes i: "i < length (data A)" and cls: "(data A ! i \<noteq> 0) \<noteq> background"
  shows "data (euclidean_dt A background pitch) ! i = saturation pitch (shape A) \<or>
         (\<exists>j < length (data A). j \<noteq> i \<and>
            data (euclidean_dt A background pitch) ! i =
            sqrt (sq_dist pitch (unravel_index (shape A) i) (unravel_index (shape A) j)))"
proof -
  let ?others = "filter (\<lambda>j. (data A ! j \<noteq> 0) = background) [0..<length (data A)]"
  let ?ds = "map (\<lambda>j. sq_dist pitch (unravel_index (shape A) i) (unravel_index (shape A) j))
               ?others"
  show ?thesis
  proof (cases "?others = []")
    case True
    then have "data (euclidean_dt A background pitch) ! i = saturation pitch (shape A)"
      using i cls by (simp add: euclidean_dt_def Let_def)
    then show ?thesis by simp
  next
    case False
    then have "min_list ?ds \<in> set ?ds" by (intro min_list_mem) simp
    then obtain j where j: "j < length (data A)" "(data A ! j \<noteq> 0) = background"
      and d: "min_list ?ds =
              sq_dist pitch (unravel_index (shape A) i) (unravel_index (shape A) j)"
      by auto
    have "j \<noteq> i" using cls j(2) by auto
    moreover have "data (euclidean_dt A background pitch) ! i = sqrt (min_list ?ds)"
      using i cls False by (simp add: euclidean_dt_def Let_def)
    ultimately show ?thesis using j(1) d by auto
  qed
qed

lemma euclidean_dt_other_class:
  assumes i: "i < length (data A)" and cls: "(data A ! i \<noteq> 0) \<noteq> background"
      and wf: "wf_ndarray A" and sh: "shape A = [z, y, x]" and a: "1 \<le> \<bar>a\<bar>"
  shows "1 \<le> data (euclidean_dt A background [a, 1, 1]) ! i"
proof -
  have n: "length (data A) = prod_list (shape A)" using wf by (simp add: wf_ndarray_def)
  have x: "0 < x" using i n sh by (cases "x = 0") simp_all
  from euclidean_dt_other_class_cases [OF i cls, of "[a, 1, 1]"] show ?thesis
  proof
    assume "data (euclidean_dt A background [a, 1, 1]) ! i = saturation [a, 1, 1] (shape A)"
    then show ?thesis using saturation_ge_1 [OF x] sh by simp
  next
    assume "\<exists>j < length (data A). j \<noteq> i \<and>
            data (euclidean_dt A background [a, 1, 1]) ! i =
            sqrt (sq_dist [a, 1, 1] (unravel_index (shape A) i) (unravel_index (shape A) j))"
    then obtain j where j: "j < length (data A)" "j \<noteq> i"
      and d: "data (euclidean_dt A background [a, 1, 1]) ! i =
              sqrt (sq_dist [a, 1, 1] (unravel_index (shape A) i) (unravel_index (shape A) j))"
      by blast
    have "unravel_index (shape A) i \<noteq> unravel_index (shape A) j"
      using unravel_index_inj [of i "shape A" j] i j n by auto
    then have "1 \<le> sq_dist [a, 1, 1] (unravel_index (shape A) i) (unravel_index (shape A) j)"
      using a sh by (intro sq_dist_ge_1) simp_all
    then show ?thesis unfolding d by simp
  qed
qed

lemma euclidean_dt_other_class_pos:
  assumes i: "i < length (data A)" and cls: "(data A ! i \<noteq> 0) \<noteq> background"
      and wf: "wf_ndarray A" and sh: "shape A = [z, y, x]" and a: "a \<noteq> 0"
  shows "0 < data (euclidean_dt A background [a, 1, 1]) ! i"
proof -
  have n: "length (data A) = prod_list (shape A)" using wf by (simp add: wf_ndarray_def)
  have x: "0 < x" using i n sh by (cases "x = 0") simp_all
  from euclidean_dt_other_class_cases [OF i cls, of "[a, 1, 1]"] show ?thesis
  proof
    assume "data (euclidean_dt A background [a, 1, 1]) ! i = saturation [a, 1, 1] (shape A)"
    then show ?thesis using saturation_ge_1 [OF x, of a z y] sh by simp
  next
    assume "\<exists>j < length (data A). j \<noteq> i \<and>
            data (euclidean_dt A background [a, 1, 1]) ! i =
            sqrt (sq_dist [a, 1, 1] (unravel_index (shape A) i) (unravel_index (shape A) j))"
    then obtain j where j: "j < length (data A)" "j \<noteq> i"
      and d: "data (euclidean_dt A background [a, 1, 1]) ! i =
              sqrt (sq_dist [a, 1, 1] (unravel_index (shape A) i) (unravel_index (shape A) j))"
      by blast
    have "unravel_index (shape A) i \<noteq> unravel_index (shape A) j"
      using unravel_index_inj [of i "shape A" j] i j n by auto
    then have "0 < sq_dist [a, 1, 1] (unravel_index (shape A) i) (unravel_index (shape A) j)"
      using a sh by (intro sq_dist_pos) simp_all
    then show ?thesis unfolding d by simp
  qed
qed

lemma wf_binary_membranes:
  "wf_ndarray pmap \<Longrightarrow> wf_ndarray (binary_membranes pmap threshold)"
  by (simp add: wf_ndarray_def binary_membranes_def map_nd_def)

lemma shape_binary_membranes [simp]:
  "shape (binary_membranes pmap threshold) = shape pmap"
  by (simp add: binary_membranes_def map_nd_def)

text \<open>
  Claim C6, amended. With the Euclidean distance transform, for a volume of non-negative
  probabilities: at a voxel outside the mask the field is strictly positive, for both
  settings of \<^verbatim>\<open>preserve_membrane_pmaps\<close>, whenever the anisotropy is not 0; at a voxel
  inside the mask the field is at most 0 with \<^verbatim>\<open>preserve_membrane_pmaps\<close> set, for every
  anisotropy, and without it whenever the anisotropy is at least 1 in absolute value.
\<close>

theorem sign_invariant_by_setting:
  assumes ok: "kernels_ok K" and dt: "distanceTransform K = euclidean_dt"
      and wf: "wf_ndarray pmap" and nd: "ndim pmap = 3"
      and i: "i < length (data pmap)" and p: "0 \<le> data pmap ! i"
  shows "(data pmap ! i < threshold \<longrightarrow> anisotropy \<noteq> 0 \<longrightarrow>
            0 < data (signed_anisotropic_dt K pmap threshold anisotropy True) ! i \<and>
            0 < data (signed_anisotropic_dt K pmap threshold anisotropy False) ! i) \<and>
         (threshold \<le> data pmap ! i \<longrightarrow>
            data (signed_anisotropic_dt K pmap threshold anisotropy True) ! i \<le> 0) \<and>
         (threshold \<le> data pmap ! i \<longrightarrow> 1 \<le> \<bar>anisotropy\<bar> \<longrightarrow>
            data (signed_anisotropic_dt K pmap threshold anisotropy False) ! i \<le> 0)"
proof -
  let ?A = "binary_membranes pmap threshold"
  let ?dtm = "data (euclidean_dt ?A True [anisotropy, 1, 1]) ! i"
  let ?dtn = "data (euclidean_dt ?A False [anisotropy, 1, 1]) ! i"
  obtain z y x where sh: "shape ?A = [z, y, x]"
    using nd unfolding ndim_def
    by (metis (no_types, opaque_lifting) length_0_conv length_Suc_conv numeral_3_eq_3
        shape_binary_membranes)
  have wfA: "wf_ndarray ?A" using wf by (rule wf_binary_membranes)
  have iA: "i < length (data ?A)" using i by simp
  have t: "data (signed_anisotropic_dt K pmap threshold anisotropy True) ! i =
           (if threshold \<le> data pmap ! i then - (data pmap ! i) else ?dtm)"
    using signed_dt_preserve_nth [OF ok i] by (simp add: dt)
  have f: "data (signed_anisotropic_dt K pmap threshold anisotropy False) ! i =
           ?dtm - shrink_positive ?dtn"
    using signed_dt_distance_nth [OF ok i] by (simp add: dt)
  have out: "0 < data (signed_anisotropic_dt K pmap threshold anisotropy True) ! i \<and>
             0 < data (signed_anisotropic_dt K pmap threshold anisotropy False) ! i"
    if "data pmap ! i < threshold" "anisotropy \<noteq> 0"
  proof -
    have c: "data ?A ! i = 0" using that i by (simp add: nth_binary_membranes)
    have "0 < ?dtm"
      using c by (intro euclidean_dt_other_class_pos [OF iA _ wfA sh that(2)]) simp
    moreover have "?dtn = 0" using c by (intro euclidean_dt_own_class [OF iA]) simp
    ultimately show ?thesis using that by (simp add: t f shrink_positive_def)
  qed
  have ins_on: "data (signed_anisotropic_dt K pmap threshold anisotropy True) ! i \<le> 0"
    if "threshold \<le> data pmap ! i"
    using that p by (simp add: t)
  have ins_off: "data (signed_anisotropic_dt K pmap threshold anisotropy False) ! i \<le> 0"
    if "threshold \<le> data pmap ! i" "1 \<le> \<bar>anisotropy\<bar>"
  proof -
    have c: "data ?A ! i = 1" using that i by (simp add: nth_binary_membranes)
    have "?dtm = 0" using c by (intro euclidean_dt_own_class [OF iA]) simp
    moreover have "1 \<le> ?dtn"
      using c by (intro euclidean_dt_other_class [OF iA _ wfA sh that(2)]) simp
    ultimately show ?thesis by (simp add: f shrink_positive_def)
  qed
  show ?thesis using out ins_on ins_off by blast
qed

lemma toy_dt: "distanceTransform toy_kernels = euclidean_dt"
  by (simp add: toy_kernels_def)

lemma toy_voxels:
  "(0 :: nat) < length (data toy_pmap)" "(0 :: real) \<le> data toy_pmap ! 0"
  "(1 / 2 :: real) \<le> data toy_pmap ! 0"
  "(9 :: nat) < length (data toy_pmap)" "(0 :: real) \<le> data toy_pmap ! 9"
  "data toy_pmap ! 9 < (1 / 2 :: real)"
  by (simp_all add: toy_pmap_def)

theorem sign_invariant_by_setting_witness:
  "kernels_ok toy_kernels \<and> distanceTransform toy_kernels = euclidean_dt \<and>
   wf_ndarray toy_pmap \<and> ndim toy_pmap = 3 \<and>
   (0 :: nat) < length (data toy_pmap) \<and> (0 :: real) \<le> data toy_pmap ! 0 \<and>
   (1 / 2 :: real) \<le> data toy_pmap ! 0 \<and>
   (9 :: nat) < length (data toy_pmap) \<and> (0 :: real) \<le> data toy_pmap ! 9 \<and>
   data toy_pmap ! 9 < (1 / 2 :: real) \<and>
   (1 :: real) \<le> \<bar>1\<bar> \<and> (1 :: real) \<noteq> 0 \<and> (1 / 2 :: real) \<noteq> 0 \<and>
   data (signed_anisotropic_dt toy_kernels toy_pmap (1 / 2) 1 True) ! 0 \<le> 0 \<and>
   data (signed_anisotropic_dt toy_kernels toy_pmap (1 / 2) 1 False) ! 0 \<le> 0 \<and>
   0 < data (signed_anisotropic_dt toy_kernels toy_pmap (1 / 2) 1 True) ! 9 \<and>
   0 < data (signed_anisotropic_dt toy_kernels toy_pmap (1 / 2) 1 False) ! 9 \<and>
   data (signed_anisotropic_dt toy_kernels toy_pmap (1 / 2) (1 / 2) True) ! 0 \<le> 0 \<and>
   0 < data (signed_anisotropic_dt toy_kernels toy_pmap (1 / 2) (1 / 2) True) ! 9 \<and>
   0 < data (signed_anisotropic_dt toy_kernels toy_pmap (1 / 2) (1 / 2) False) ! 9"
proof -
  note t0 = sign_invariant_by_setting [OF toy_kernels_ok toy_dt toy_wf toy_shape(1)
      toy_voxels(1) toy_voxels(2), of "1 / 2"]
  note t9 = sign_invariant_by_setting [OF toy_kernels_ok toy_dt toy_wf toy_shape(1)
      toy_voxels(4) toy_voxels(5), of "1 / 2"]
  have r0: "data (signed_anisotropic_dt toy_kernels toy_pmap (1 / 2) 1 True) ! 0 \<le> 0"
    "data (signed_anisotropic_dt toy_kernels toy_pmap (1 / 2) 1 False) ! 0 \<le> 0"
    using t0 [of 1] toy_voxels(3) by simp_all
  have r9: "0 < data (signed_anisotropic_dt toy_kernels toy_pmap (1 / 2) 1 True) ! 9"
    "0 < data (signed_anisotropic_dt toy_kernels toy_pmap (1 / 2) 1 False) ! 9"
    using t9 [of 1] toy_voxels(6) by simp_all
  have h0: "data (signed_anisotropic_dt toy_kernels toy_pmap (1 / 2) (1 / 2) True) ! 0 \<le> 0"
    using t0 [of "1 / 2"] toy_voxels(3) by simp
  have h9: "0 < data (signed_anisotropic_dt toy_kernels toy_pmap (1 / 2) (1 / 2) True) ! 9"
    "0 < data (signed_anisotropic_dt toy_kernels toy_pmap (1 / 2) (1 / 2) False) ! 9"
    using t9 [of "1 / 2"] toy_voxels(6) by simp_all
  show ?thesis
    using toy_kernels_ok toy_dt toy_wf toy_shape(1) toy_voxels r0 r9 h0 h9 by simp
qed

lemma toy_dtm_fine:
  "signed_anisotropic_dt toy_kernels toy_pmap (1 / 2) (1 / 2) False =
   \<lparr>shape = [2, 3, 3],
    data = [1 / 2, 1 / 2, 1 / 2, 1 / 2, 1 / 2, 1 / 2, 1 / 2, 1 / 2, 1 / 2,
            1 / 2, 1 / 2, 1 / 2, 1 / 2, 1 / 2, 1 / 2, 1 / 2, 1 / 2, 1 / 2]\<rparr>"
  by (simp add: signed_anisotropic_dt_def binary_membranes_def toy_kernels_def toy_pmap_def
      map_nd_def map2_nd_def euclidean_dt_def sq_dist_def shrink_positive_def Let_def)

lemma toy_dtm_flat_on:
  "signed_anisotropic_dt toy_kernels toy_pmap (1 / 2) 0 True =
   \<lparr>shape = [2, 3, 3],
    data = [- 1, - 1, - 1, - 1, - 1, - 1, - 1, - 1, - 1, 0, 0, 0, 0, 0, 0, 0, 0, 0]\<rparr>"
  by (simp add: signed_anisotropic_dt_def binary_membranes_def toy_kernels_def toy_pmap_def
      map_nd_def mask_assign_def euclidean_dt_def sq_dist_def Let_def)

lemma toy_dtm_flat_off:
  "signed_anisotropic_dt toy_kernels toy_pmap (1 / 2) 0 False =
   \<lparr>shape = [2, 3, 3],
    data = [0, 0, 0, 0, 0, 0, 0, 0, 0, 0, 0, 0, 0, 0, 0, 0, 0, 0]\<rparr>"
  by (simp add: signed_anisotropic_dt_def binary_membranes_def toy_kernels_def toy_pmap_def
      map_nd_def map2_nd_def euclidean_dt_def sq_dist_def shrink_positive_def Let_def)

text \<open>
  Claim C6 as stated fails in two places. Without \<^verbatim>\<open>preserve_membrane_pmaps\<close> and with the
  pitch \<open>1 / 2\<close> along \<open>z\<close>, a membrane voxel lies at distance \<open>1 / 2\<close> from the free slice
  next to it; line 35 turns that into \<open>- 1 / 2\<close>, and the field inside the mask becomes
  \<open>1 / 2\<close>. With the pitch 0 along \<open>z\<close>, a free voxel lies at distance 0 from the membrane
  slice next to it, and the field outside the mask is 0 for both settings.
\<close>

theorem sign_invariant_fails_fine_z:
  "kernels_ok toy_kernels \<and> distanceTransform toy_kernels = euclidean_dt \<and>
   wf_ndarray toy_pmap \<and> ndim toy_pmap = 3 \<and> set (data toy_pmap) \<subseteq> {0, 1} \<and>
   (0 :: nat) < length (data toy_pmap) \<and> (1 / 2 :: real) \<le> data toy_pmap ! 0 \<and>
   data (signed_anisotropic_dt toy_kernels toy_pmap (1 / 2) (1 / 2) False) ! 0 = 1 / 2 \<and>
   \<not> data (signed_anisotropic_dt toy_kernels toy_pmap (1 / 2) (1 / 2) False) ! 0 \<le> 0 \<and>
   (9 :: nat) < length (data toy_pmap) \<and> data toy_pmap ! 9 < (1 / 2 :: real) \<and>
   \<not> 0 < data (signed_anisotropic_dt toy_kernels toy_pmap (1 / 2) 0 True) ! 9 \<and>
   \<not> 0 < data (signed_anisotropic_dt toy_kernels toy_pmap (1 / 2) 0 False) ! 9"
proof -
  have "set (data toy_pmap) \<subseteq> {0, 1}" by (simp add: toy_pmap_def)
  then show ?thesis
    using toy_kernels_ok toy_dt toy_wf toy_shape(1) toy_voxels
    by (simp add: toy_dtm_fine toy_dtm_flat_on toy_dtm_flat_off)
qed

section \<open>Uniqueness of labels and the label space\<close>

text \<open>
  Claim C2, amended. If every grown slice carries labels between 1 and the maximal label
  returned for it, and the returned count is at most \<open>2 ^ 32\<close>, then no label value
  occurs in two slices of the result. The second condition is needed: the labels are
  \<^verbatim>\<open>uint32\<close> and the offset is added modulo \<open>2 ^ 32\<close>.
\<close>

theorem labels_unique_without_wrap:
  assumes "kernels_ok K" and "wf_ndarray pmap"
      and "ws_anisotropic_distance_transform K pmap th a ss sw mss pr gr gs = Inr (labels, n)"
      and "dtm = signed_anisotropic_dt K pmap th a pr"
      and "anisotropic_seeds K dtm a ss gs = Inr seeds"
      and "hmap = height_map K pmap dtm gr sw"
      and within: "labels_within K hmap seeds mss (shape pmap ! 0)"
      and total: "n \<le> 2 ^ 32"
      and z: "z1 < z2" "z2 < shape pmap ! 0"
  shows "set (data (get_slice labels z1)) \<inter> set (data (get_slice labels z2)) = {}"
proof -
  note p = pipeline_stitched [OF assms(1-6)]
  have inpl: "ws_in_place K" using assms(1) by (simp add: kernels_ok_def)
  have len: "length (data seeds) = shape pmap ! 0 * slice_size seeds" using p by simp
  have tot: "running_offset K hmap seeds mss (shape pmap ! 0) \<le> 2 ^ 32" using p total by simp
  have "data (get_slice labels z1) = stitched_slice K hmap seeds mss z1"
       "data (get_slice labels z2) = stitched_slice K hmap seeds mss z2"
    using p z by simp_all
  then show ?thesis using stitched_disjoint [OF inpl len within tot z] by simp
qed

theorem labels_unique_without_wrap_witness:
  "kernels_ok toy_kernels \<and> wf_ndarray clear_pmap \<and>
   ws_anisotropic_distance_transform toy_kernels clear_pmap (1 / 2) 1 1 0 0 True True False =
     Inr (clear_labels, 18) \<and>
   anisotropic_seeds toy_kernels (signed_anisotropic_dt toy_kernels clear_pmap (1 / 2) 1 True)
     1 1 False = Inr clear_seeds \<and>
   labels_within toy_kernels clear_pmap clear_seeds 0 (shape clear_pmap ! 0) \<and>
   (18 :: int) \<le> 2 ^ 32 \<and> (0 :: nat) < 1 \<and> 1 < shape clear_pmap ! 0 \<and>
   set (data (get_slice clear_labels 0)) \<inter> set (data (get_slice clear_labels 1)) = {}"
proof -
  have w: "labels_within toy_kernels clear_pmap clear_seeds 0 (shape clear_pmap ! 0)"
    using clear_within clear_shape by simp
  have z: "(0 :: nat) < 1" "1 < shape clear_pmap ! 0" using clear_shape by simp_all
  have n: "(18 :: int) \<le> 2 ^ 32" by simp
  note t = labels_unique_without_wrap [OF toy_kernels_ok clear_wf clear_run refl clear_seeds_run refl,
      unfolded clear_hmap, OF w n z]
  show ?thesis using t w z n toy_kernels_ok clear_wf clear_run clear_seeds_run by simp
qed

text \<open>
  Claim C2 as stated fails where the offset wraps: on three slices of \<open>2 ^ 31\<close> voxels,
  each carrying the labels 1 to \<open>2 ^ 31\<close>, the third slice meets the offset \<open>2 ^ 32\<close>
  and repeats the labels of the first.
\<close>

theorem labels_repeat_after_wrap:
  "kernels_ok toy_kernels \<and> wf_ndarray big_pmap \<and>
   ws_anisotropic_distance_transform toy_kernels big_pmap (1 / 2) 1 1 0 0 True True False =
     Inr (big_labels, 6442450944) \<and>
   anisotropic_seeds toy_kernels (signed_anisotropic_dt toy_kernels big_pmap (1 / 2) 1 True)
     1 1 False = Inr big_seeds \<and>
   labels_within toy_kernels big_pmap big_seeds 0 (shape big_pmap ! 0) \<and>
   grown toy_kernels big_pmap big_seeds 0 0 = ramp 2147483648 \<and>
   max_label toy_kernels big_pmap big_seeds 0 0 = 2147483648 \<and>
   grown toy_kernels big_pmap big_seeds 0 1 = ramp 2147483648 \<and>
   max_label toy_kernels big_pmap big_seeds 0 1 = 2147483648 \<and>
   grown toy_kernels big_pmap big_seeds 0 2 = ramp 2147483648 \<and>
   max_label toy_kernels big_pmap big_seeds 0 2 = 2147483648 \<and>
   (0 :: nat) < 2 \<and> 2 < shape big_pmap ! 0 \<and> (1 :: u32) \<noteq> 0 \<and>
   1 \<in> set (data (get_slice big_labels 0)) \<inter> set (data (get_slice big_labels 2))"
proof -
  have g: "grown toy_kernels big_pmap big_seeds 0 0 = ramp 2147483648"
    "grown toy_kernels big_pmap big_seeds 0 1 = ramp 2147483648"
    "grown toy_kernels big_pmap big_seeds 0 2 = ramp 2147483648"
    "max_label toy_kernels big_pmap big_seeds 0 0 = 2147483648"
    "max_label toy_kernels big_pmap big_seeds 0 1 = 2147483648"
    "max_label toy_kernels big_pmap big_seeds 0 2 = 2147483648"
    using big_grown [of 0] big_grown [of 1] big_grown [of 2] by (simp_all add: big_count)
  have w: "labels_within toy_kernels big_pmap big_seeds 0 (shape big_pmap ! 0)"
    using big_within big_shape by simp
  have o: "1 \<in> set (data (get_slice big_labels 0)) \<inter> set (data (get_slice big_labels 2))"
    using one_in_big_slice by (simp add: big_labels_slice)
  have z: "2 < shape big_pmap ! 0" using big_shape by simp
  show ?thesis
    using toy_kernels_ok big_wf big_run big_seeds_run w g o z by simp
qed

text \<open>
  Claim C8, amended. The module has no check of the label space: for every input of valid
  shape and nonzero anisotropy the run returns; the returned count is the exact sum of the
  maximal labels (a Python integer), and every stored label is reduced modulo \<open>2 ^ 32\<close>.
\<close>

theorem no_label_space_check:
  assumes ok: "kernels_ok K" and wf: "wf_ndarray pmap"
      and shape: "ndim pmap = 3" "shape pmap ! 0 < shape pmap ! 1" "shape pmap ! 0 < shape pmap ! 2"
      and a: "a \<noteq> 0"
      and dtm: "dtm = signed_anisotropic_dt K pmap th a pr"
      and hmap: "hmap = height_map K pmap dtm gr sw"
  shows "\<exists>labels seeds.
           anisotropic_seeds K dtm a ss gs = Inr seeds \<and>
           ws_anisotropic_distance_transform K pmap th a ss sw mss pr gr gs =
             Inr (labels, running_offset K hmap seeds mss (shape pmap ! 0)) \<and>
           (\<forall>z < shape pmap ! 0. \<forall>i < length (grown K hmap seeds mss z).
              uint (data (get_slice labels z) ! i) =
              (uint (grown K hmap seeds mss z ! i) - 1 + running_offset K hmap seeds mss z)
                mod 2 ^ 32)"
proof -
  obtain seeds where seeds: "anisotropic_seeds K dtm a ss gs = Inr seeds"
    using a by (simp add: anisotropic_seeds_def Let_def)
  obtain labels n where run:
    "ws_anisotropic_distance_transform K pmap th a ss sw mss pr gr gs = Inr (labels, n)"
    using shape seeds dtm
    by (simp add: ws_anisotropic_distance_transform_def) (metis surj_pair)
  note p = pipeline_stitched [OF ok wf run dtm seeds hmap]
  have n: "n = running_offset K hmap seeds mss (shape pmap ! 0)" using p by simp
  have "uint (data (get_slice labels z) ! i) =
        (uint (grown K hmap seeds mss z ! i) - 1 + running_offset K hmap seeds mss z) mod 2 ^ 32"
    if "z < shape pmap ! 0" "i < length (grown K hmap seeds mss z)" for z i
  proof -
    have "data (get_slice labels z) = stitched_slice K hmap seeds mss z" using p that by simp
    then have "data (get_slice labels z) ! i =
        grown K hmap seeds mss z ! i - 1 + word_of_int (running_offset K hmap seeds mss z)"
      using that by (simp add: stitched_slice_def)
    then show ?thesis by (simp only: uint_stitched)
  qed
  then show ?thesis using seeds run n by blast
qed

theorem no_label_space_check_witness:
  "kernels_ok toy_kernels \<and> wf_ndarray big_pmap \<and> ndim big_pmap = 3 \<and>
   shape big_pmap ! 0 < shape big_pmap ! 1 \<and> shape big_pmap ! 0 < shape big_pmap ! 2 \<and>
   (1 :: real) \<noteq> 0 \<and>
   (\<exists>labels seeds.
      anisotropic_seeds toy_kernels (signed_anisotropic_dt toy_kernels big_pmap (1 / 2) 1 True)
        1 1 False = Inr seeds \<and>
      ws_anisotropic_distance_transform toy_kernels big_pmap (1 / 2) 1 1 0 0 True True False =
        Inr (labels, running_offset toy_kernels big_pmap seeds 0 (shape big_pmap ! 0)) \<and>
      uint (data (get_slice labels 2) ! 0) =
        (uint (grown toy_kernels big_pmap seeds 0 2 ! 0) - 1 +
         running_offset toy_kernels big_pmap seeds 0 2) mod 2 ^ 32)"
proof -
  have s: "shape big_pmap ! 0 < shape big_pmap ! 1" "shape big_pmap ! 0 < shape big_pmap ! 2"
    using big_shape by simp_all
  have a: "(1 :: real) \<noteq> 0" by simp
  note t = no_label_space_check [where th = "1 / 2" and pr = True and gr = True and sw = 0 and ss = 1
      and gs = False and mss = 0, OF toy_kernels_ok big_wf big_shape(1) s a refl refl,
      unfolded big_hmap]
  then obtain labels seeds where
    r: "anisotropic_seeds toy_kernels (signed_anisotropic_dt toy_kernels big_pmap (1 / 2) 1 True)
        1 1 False = Inr seeds"
      "ws_anisotropic_distance_transform toy_kernels big_pmap (1 / 2) 1 1 0 0 True True False =
        Inr (labels, running_offset toy_kernels big_pmap seeds 0 (shape big_pmap ! 0))"
    and u: "\<forall>z < shape big_pmap ! 0. \<forall>i < length (grown toy_kernels big_pmap seeds 0 z).
              uint (data (get_slice labels z) ! i) =
              (uint (grown toy_kernels big_pmap seeds 0 z ! i) - 1 +
               running_offset toy_kernels big_pmap seeds 0 z) mod 2 ^ 32"
    by blast
  have sb: "seeds = big_seeds" using r(1) big_seeds_run by simp
  have "0 < length (grown toy_kernels big_pmap seeds 0 2)"
    unfolding sb using big_grown(1) [of 2] by (simp add: big_count)
  moreover have "2 < shape big_pmap ! 0" using big_shape by simp
  ultimately have "uint (data (get_slice labels 2) ! 0) =
        (uint (grown toy_kernels big_pmap seeds 0 2 ! 0) - 1 +
         running_offset toy_kernels big_pmap seeds 0 2) mod 2 ^ 32"
    using u by blast
  then show ?thesis using r s a toy_kernels_ok big_wf big_shape(1) by blast
qed

text \<open>
  Claim C8 as stated fails: on the large volume the count \<open>3 * 2 ^ 31\<close> does not fit 32
  bits, yet the run returns it, and the labels of the third slice have wrapped onto those
  of the first.
\<close>

theorem offset_overflow_returns:
  "ws_anisotropic_distance_transform toy_kernels big_pmap (1 / 2) 1 1 0 0 True True False =
     Inr (big_labels, 6442450944) \<and>
   (2 :: int) ^ 32 \<le> 6442450944 \<and>
   running_offset toy_kernels big_pmap big_seeds 0 2 = 4294967296 \<and>
   data (get_slice big_labels 2) = data (get_slice big_labels 0)"
  using big_run big_offsets(3) by (simp add: big_labels_slice)


section \<open>Running twice\<close>

lemma store_run_result:
  "fst (store_run K st th a ss sw mss pr gr gs) =
   ws_anisotropic_distance_transform K (pmap_buf st) th a ss sw mss pr gr gs"
  by (simp add: store_run_def ws_anisotropic_distance_transform_def height_map_def Let_def
      split: sum.splits)

lemma store_run_input:
  "pmap_buf (snd (store_run K st th a ss sw mss pr gr gs)) = pmap_buf st"
  by (simp add: store_run_def Let_def split: sum.splits)

text \<open>
  Claim C9. With kernels that are functions of their arguments, a run leaves the caller's
  array as it found it and returns what the function \<open>ws_anisotropic_distance_transform\<close>
  of that array returns; so a second run, started in the store the first run left behind,
  returns the same labels and the same count (or the same failure).
\<close>

theorem rerun_same_output:
  "fst (store_run K (snd (store_run K st th a ss sw mss pr gr gs)) th a ss sw mss pr gr gs) =
   fst (store_run K st th a ss sw mss pr gr gs)"
  by (simp only: store_run_result store_run_input)

theorem rerun_same_output_witness:
  "fst (store_run toy_kernels
          (snd (store_run toy_kernels toy_store (1 / 2) 1 1 0 0 True True False))
          (1 / 2) 1 1 0 0 True True False) = Inr (toy_labels, 9) \<and>
   fst (store_run toy_kernels toy_store (1 / 2) 1 1 0 0 True True False) = Inr (toy_labels, 9)"
proof -
  have "fst (store_run toy_kernels toy_store (1 / 2) 1 1 0 0 True True False) =
        Inr (toy_labels, 9)"
    using toy_run by (simp add: store_run_result toy_store_def)
  then show ?thesis
    using rerun_same_output [of toy_kernels toy_store "1 / 2" 1 1 0 0 True True False] by simp
qed



end
